theory Spec2Isabelle
  imports Complex_Main "HOL-Library.Sublist"
begin

section \<open>Data model (models.py)\<close>

text \<open>
  Python's \<open>datetime\<close> is a subclass of \<open>date\<close>; the record extension mirrors that, so
  \<open>year\<close> and \<open>month\<close> read both. \<open>tod\<close> is the time of day in microseconds.
\<close>

record date =
  year :: int
  month :: int
  day :: int

record datetime = date +
  tod :: nat

text \<open>
  The columns of \<open>User\<close> that the modelled operations touch. \<open>scan_count\<close> and
  \<open>last_quota_reset\<close> are nullable columns, hence options. The primary key \<open>id\<close> is
  called \<open>uid\<close> here.
\<close>

record user =
  uid :: int
  email :: string
  hashed_password :: string
  scan_count :: "int option"
  last_quota_reset :: "datetime option"

section \<open>Settings (config.py) and the clock\<close>

record settings =
  MAX_MONTHLY_SCANS :: int
  UPLOAD_DIR :: string

definition default_settings :: settings where
  "default_settings = \<lparr>MAX_MONTHLY_SCANS = 10, UPLOAD_DIR = ''uploads/resumes''\<rparr>"

definition ALLOWED_EXTENSIONS :: "string list" where
  "ALLOWED_EXTENSIONS = [''.pdf'', ''.docx'']"

text \<open>
  What the system clock answers: \<open>date.today()\<close> (local date) and
  \<open>datetime.now(timezone.utc)\<close>. They are read independently, as in the source.
\<close>

record clock =
  today :: date
  utcnow :: datetime

section \<open>Python string helpers\<close>

text \<open>
  A \<open>char\<close> is a code point from 0 to 255. \<open>str.lower\<close> on that range: the letters A to Z
  and the capital letters 0xc0..0xde, the multiplication sign 0xd7 apart, move up by 32.
\<close>

definition lower_char :: "char \<Rightarrow> char" where
  "lower_char c =
     (let n = (of_char c :: nat)
      in if (65 \<le> n \<and> n \<le> 90) \<or> (192 \<le> n \<and> n \<le> 222 \<and> n \<noteq> 215) then char_of (n + 32)
         else c)"

definition lower :: "string \<Rightarrow> string" where
  "lower s = map lower_char s"

definition endswith :: "string \<Rightarrow> string \<Rightarrow> bool" where
  "endswith s suf = (length suf \<le> length s \<and> drop (length s - length suf) s = suf)"

definition startswith :: "string \<Rightarrow> string \<Rightarrow> bool" where
  "startswith s pre = (take (length pre) s = pre)"

text \<open>
  \<open>str.isspace\<close> on the code points from 0 to 255, which is also
  what \<open>\s\<close> matches in a \<open>str\<close> pattern: tab, newline, vertical tab, form feed,
  carriage return (9..13), the four separators 0x1c..0x1f, the space, the next-line
  control 0x85 and the no-break space 0xa0.
\<close>

definition isspace :: "char \<Rightarrow> bool" where
  "isspace c =
     (let n = (of_char c :: nat)
      in (9 \<le> n \<and> n \<le> 13) \<or> (28 \<le> n \<and> n \<le> 32) \<or> n = 133 \<or> n = 160)"

definition lstrip_with :: "(char \<Rightarrow> bool) \<Rightarrow> string \<Rightarrow> string" where
  "lstrip_with P s = dropWhile P s"

definition rstrip_with :: "(char \<Rightarrow> bool) \<Rightarrow> string \<Rightarrow> string" where
  "rstrip_with P s = rev (dropWhile P (rev s))"

text \<open>\<open>s.strip()\<close> and \<open>s.strip('`')\<close>.\<close>

definition strip :: "string \<Rightarrow> string" where
  "strip s = rstrip_with isspace (lstrip_with isspace s)"

definition strip_chars :: "string \<Rightarrow> string \<Rightarrow> string" where
  "strip_chars cs s = rstrip_with (\<lambda>c. c \<in> set cs) (lstrip_with (\<lambda>c. c \<in> set cs) s)"

text \<open>\<open>s.find(c)\<close> and \<open>s.rfind(c)\<close> for a single character: the index, or -1.\<close>

definition find_char :: "string \<Rightarrow> char \<Rightarrow> int" where
  "find_char s c = (if c \<in> set s then int (length (takeWhile (\<lambda>x. x \<noteq> c) s)) else - 1)"

definition rfind_char :: "string \<Rightarrow> char \<Rightarrow> int" where
  "rfind_char s c =
     (if c \<in> set s then int (length s) - 1 - int (length (takeWhile (\<lambda>x. x \<noteq> c) (rev s)))
      else - 1)"

text \<open>\<open>s[i:j]\<close> for indices that are not negative.\<close>

definition slice :: "string \<Rightarrow> int \<Rightarrow> int \<Rightarrow> string" where
  "slice s i j = take (nat (j - i)) (drop (nat i) s)"

text \<open>\<open>s.replace(a, b)\<close> for single characters.\<close>

definition replace_char :: "char \<Rightarrow> char \<Rightarrow> string \<Rightarrow> string" where
  "replace_char a b s = map (\<lambda>c. if c = a then b else c) s"

text \<open>\<open>sep.join(xs)\<close> on strings.\<close>

fun join :: "string \<Rightarrow> string list \<Rightarrow> string" where
  "join sep [] = []"
| "join sep [x] = x"
| "join sep (x # y # ys) = x @ sep @ join sep (y # ys)"

section \<open>Python values and exceptions\<close>

datatype pyfloat = Finite rat | Infinity bool | NaN

datatype pyval =
    PNone
  | PBool bool
  | PInt int
  | PFloat pyfloat
  | PStr string
  | PBytes string
  | PList "pyval list"
  | PTuple "pyval list"
  | PSet "pyval list"
  | PDict "(pyval \<times> pyval) list"

datatype exn =
    AttributeError
  | TypeError
  | ValueError string
  | OverflowError
  | UnknownHashError
  | OtherError

text \<open>Sequencing of computations that may raise: the first exception wins.\<close>

definition andthen :: "exn + 'a \<Rightarrow> ('a \<Rightarrow> exn + 'b) \<Rightarrow> exn + 'b" where
  "andthen m f = (case m of Inl e \<Rightarrow> Inl e | Inr v \<Rightarrow> f v)"

text \<open>Truth value of an object, as \<open>if x\<close>, \<open>not x\<close> and \<open>x or y\<close> test it.\<close>

fun truthy :: "pyval \<Rightarrow> bool" where
  "truthy PNone = False"
| "truthy (PBool b) = b"
| "truthy (PInt i) = (i \<noteq> 0)"
| "truthy (PFloat f) = (f \<noteq> Finite 0)"
| "truthy (PStr s) = (s \<noteq> [])"
| "truthy (PBytes s) = (s \<noteq> [])"
| "truthy (PList xs) = (xs \<noteq> [])"
| "truthy (PTuple xs) = (xs \<noteq> [])"
| "truthy (PSet xs) = (xs \<noteq> [])"
| "truthy (PDict kvs) = (kvs \<noteq> [])"

definition py_or :: "pyval \<Rightarrow> pyval \<Rightarrow> pyval" where
  "py_or a b = (if truthy a then a else b)"

text \<open>
  \<open>obj.get(key, default)\<close> with a string key: only a dict has the method; any other
  value raises AttributeError.
\<close>

fun py_get :: "pyval \<Rightarrow> string \<Rightarrow> pyval \<Rightarrow> exn + pyval" where
  "py_get (PDict kvs) k d = Inr (case map_of kvs (PStr k) of None \<Rightarrow> d | Some v \<Rightarrow> v)"
| "py_get _ k d = Inl AttributeError"

text \<open>\<open>d[key] = v\<close> on the association list of a dict.\<close>

fun dict_set :: "(pyval \<times> pyval) list \<Rightarrow> pyval \<Rightarrow> pyval \<Rightarrow> (pyval \<times> pyval) list" where
  "dict_set [] k v = [(k, v)]"
| "dict_set ((k', v') # kvs) k v = (if k' = k then (k, v) # kvs else (k', v') # dict_set kvs k v)"

text \<open>Reading a dict under a string key: the value, or \<open>None\<close> where \<open>d[k]\<close> would raise.\<close>

definition dict_get :: "pyval \<Rightarrow> string \<Rightarrow> pyval option" where
  "dict_get d k = (case d of PDict kvs \<Rightarrow> map_of kvs (PStr k) | _ \<Rightarrow> None)"

definition has_key :: "pyval \<Rightarrow> string \<Rightarrow> bool" where
  "has_key d k = (dict_get d k \<noteq> None)"

definition truthy_at :: "pyval \<Rightarrow> string \<Rightarrow> bool" where
  "truthy_at d k = (case dict_get d k of None \<Rightarrow> False | Some v \<Rightarrow> truthy v)"

definition nonempty_list_at :: "pyval \<Rightarrow> string \<Rightarrow> bool" where
  "nonempty_list_at d k = (case dict_get d k of Some (PList xs) \<Rightarrow> xs \<noteq> [] | _ \<Rightarrow> False)"

definition is_dict :: "pyval \<Rightarrow> bool" where
  "is_dict v = (case v of PDict kvs \<Rightarrow> True | _ \<Rightarrow> False)"

definition is_list :: "pyval \<Rightarrow> bool" where
  "is_list v = (case v of PList xs \<Rightarrow> True | _ \<Rightarrow> False)"

text \<open>
  The library functions whose results the code only passes on: \<open>json.loads\<close>,
  \<open>ast.literal_eval\<close> and the text-to-integer conversion inside \<open>int()\<close>. \<open>None\<close> stands
  for a raised exception.
\<close>

record pylib =
  json_loads :: "string \<Rightarrow> pyval option"
  literal_eval :: "string \<Rightarrow> pyval option"
  int_of_text :: "string \<Rightarrow> int option"

text \<open>\<open>int(x)\<close>.\<close>

fun py_int :: "pylib \<Rightarrow> pyval \<Rightarrow> exn + int" where
  "py_int lib (PInt i) = Inr i"
| "py_int lib (PBool b) = Inr (if b then 1 else 0)"
| "py_int lib (PFloat (Finite r)) = Inr (if 0 \<le> r then \<lfloor>r\<rfloor> else \<lceil>r\<rceil>)"
| "py_int lib (PFloat (Infinity _)) = Inl OverflowError"
| "py_int lib (PFloat NaN) = Inl (ValueError ''cannot convert float NaN to integer'')"
| "py_int lib (PStr s) =
     (case int_of_text lib s of None \<Rightarrow> Inl (ValueError ''invalid literal for int()'') | Some i \<Rightarrow> Inr i)"
| "py_int lib (PBytes s) =
     (case int_of_text lib s of None \<Rightarrow> Inl (ValueError ''invalid literal for int()'') | Some i \<Rightarrow> Inr i)"
| "py_int lib _ = Inl TypeError"

text \<open>
  \<open>sep.join(x)\<close> on an arbitrary object: it must be iterable and yield only strings.
  A string yields its characters, a dict its keys, a bytes object integers.
\<close>

definition str_items :: "pyval list \<Rightarrow> exn + string list" where
  "str_items xs =
     (if list_all (\<lambda>x. case x of PStr s \<Rightarrow> True | _ \<Rightarrow> False) xs
      then Inr (map (\<lambda>x. case x of PStr s \<Rightarrow> s | _ \<Rightarrow> []) xs) else Inl TypeError)"

fun py_join :: "string \<Rightarrow> pyval \<Rightarrow> exn + string" where
  "py_join sep (PList xs) = andthen (str_items xs) (\<lambda>ss. Inr (join sep ss))"
| "py_join sep (PTuple xs) = andthen (str_items xs) (\<lambda>ss. Inr (join sep ss))"
| "py_join sep (PSet xs) = andthen (str_items xs) (\<lambda>ss. Inr (join sep ss))"
| "py_join sep (PDict kvs) = andthen (str_items (map fst kvs)) (\<lambda>ss. Inr (join sep ss))"
| "py_join sep (PStr s) = Inr (join sep (map (\<lambda>c. [c]) s))"
| "py_join sep (PBytes s) = (if s = [] then Inr [] else Inl TypeError)"
| "py_join sep _ = Inl TypeError"

section \<open>The outside world of utils.py\<close>

text \<open>
  Everything the code asks of its environment, as answers: the text of a PDF's pages
  and of a DOCX's paragraphs (\<open>None\<close> when the parser is missing or raises), the reply
  of the LLM endpoint (\<open>None\<close> for a timeout, a connection error or any other exception),
  and the draws of the random generator by position.
\<close>

record world =
  read_pdf :: "string \<Rightarrow> string list option"
  read_docx :: "string \<Rightarrow> string list option"
  ollama_post :: "string \<Rightarrow> string option"
  rand_nat :: "nat \<Rightarrow> nat"
  rand_coin :: "nat \<Rightarrow> bool"

text \<open>\<open>random.randint(a, b)\<close> by its contract: a value from a to b, picked by the draw.\<close>

definition randint :: "int \<Rightarrow> int \<Rightarrow> nat \<Rightarrow> int" where
  "randint a b r = a + int (r mod nat (b - a + 1))"

definition call_llm :: "world \<Rightarrow> string \<Rightarrow> string" where
  "call_llm w prompt = (case ollama_post w prompt of None \<Rightarrow> [] | Some result \<Rightarrow> strip result)"

subsection \<open>Paths and text extraction\<close>

definition basename :: "string \<Rightarrow> string" where
  "basename p = drop (nat (rfind_char p (CHR ''/'') + 1)) p"

text \<open>The second component of \<open>os.path.splitext\<close>: leading dots of the name are no extension.\<close>

definition splitext_ext :: "string \<Rightarrow> string" where
  "splitext_ext p =
     (let sepIndex = rfind_char p (CHR ''/''); dotIndex = rfind_char p (CHR ''.'')
      in if dotIndex > sepIndex \<and> list_ex (\<lambda>c. c \<noteq> CHR ''.'') (slice p (sepIndex + 1) dotIndex)
         then drop (nat dotIndex) p else [])"

definition extract_text_from_pdf :: "world \<Rightarrow> string \<Rightarrow> string" where
  "extract_text_from_pdf w path =
     (case read_pdf w path of None \<Rightarrow> [] | Some text_parts \<Rightarrow> join ''\<newline>'' text_parts)"

definition extract_text_from_docx :: "world \<Rightarrow> string \<Rightarrow> string" where
  "extract_text_from_docx w path =
     (case read_docx w path of None \<Rightarrow> []
      | Some ps \<Rightarrow> join ''\<newline>'' (filter (\<lambda>t. t \<noteq> []) ps))"

definition extract_text_from_file :: "world \<Rightarrow> string \<Rightarrow> string" where
  "extract_text_from_file w path =
     (let ext = lower (splitext_ext path)
      in if ext = ''.pdf'' then extract_text_from_pdf w path
         else if ext = ''.docx'' then extract_text_from_docx w path
         else [])"

subsection \<open>The regular expressions of the JSON clean-up\<close>

text \<open>
  \<open>re.sub(r",\s*([}\]])", r"\1", s)\<close>: a comma, any white space and then a closing
  bracket are replaced by the bracket; scanning goes on behind the bracket.
\<close>

function sub_trailing_commas :: "string \<Rightarrow> string" where
  "sub_trailing_commas [] = []"
| "sub_trailing_commas (c # cs) =
     (if c = CHR '','' then
        (case dropWhile isspace cs of
           [] \<Rightarrow> c # sub_trailing_commas cs
         | d # ds \<Rightarrow>
             if d = CHR ''}'' \<or> d = CHR '']'' then d # sub_trailing_commas ds
             else c # sub_trailing_commas cs)
      else c # sub_trailing_commas cs)"
  by pat_completeness auto
termination
proof (relation "measure length")
  fix c :: char and cs d ds
  assume "dropWhile isspace cs = d # ds"
  then have "length (d # ds) \<le> length cs"
    by (metis length_dropWhile_le)
  then show "(ds, c # cs) \<in> measure length" by simp
qed simp_all

text \<open>
  \<open>re.search(r"```json\s*(\{.*?\})\s*```", text, re.IGNORECASE | re.DOTALL)\<close>, group 1.
  After the opening fence and all white space a brace must follow; the lazy body ends
  at the first closing brace that white space and a closing fence follow. Ignoring case,
  \<open>json\<close> is matched by its letters in either case and by no other code point up to
  255, which is what comparing the lower-case form says.
\<close>

fun find_fence_close :: "string \<Rightarrow> string \<Rightarrow> string option" where
  "find_fence_close acc [] = None"
| "find_fence_close acc (c # cs) =
     (if c = CHR ''}'' \<and> startswith (dropWhile isspace cs) ''```'' then Some (rev (c # acc))
      else find_fence_close (c # acc) cs)"

definition match_fence_at :: "string \<Rightarrow> string option" where
  "match_fence_at s =
     (if lower (take 7 s) = ''```json'' then
        (case dropWhile isspace (drop 7 s) of
           [] \<Rightarrow> None
         | c # body \<Rightarrow> if c = CHR ''{'' then find_fence_close [c] body else None)
      else None)"

fun search_fence :: "string \<Rightarrow> string option" where
  "search_fence [] = None"
| "search_fence (c # cs) =
     (case match_fence_at (c # cs) of Some g \<Rightarrow> Some g | None \<Rightarrow> search_fence cs)"

subsection \<open>\<open>_parse_json_or_fallback\<close>\<close>

text \<open>
  Each step either returns a value (\<open>Some\<close>) or falls through to the next one
  (\<open>None\<close>). The value returned may itself be Python's \<open>None\<close>, which is \<open>PNone\<close>.
\<close>

definition parse_fenced :: "pylib \<Rightarrow> string \<Rightarrow> pyval option" where
  "parse_fenced lib text =
     (case search_fence text of
        None \<Rightarrow> None
      | Some m \<Rightarrow>
          let candidate = sub_trailing_commas m in
          (case json_loads lib candidate of
             Some v \<Rightarrow> Some v
           | None \<Rightarrow>
               (case json_loads lib (replace_char (CHR 0x27) (CHR 0x22) candidate) of
                  Some v \<Rightarrow> Some v
                | None \<Rightarrow> literal_eval lib candidate)))"

definition parse_braces :: "pylib \<Rightarrow> string \<Rightarrow> pyval option" where
  "parse_braces lib text =
     (let start = find_char text (CHR ''{''); endp = rfind_char text (CHR ''}'')
      in if start \<noteq> - 1 \<and> endp \<noteq> - 1 \<and> endp > start then
           let snippet = sub_trailing_commas (slice text start (endp + 1)) in
           (case json_loads lib snippet of
              Some v \<Rightarrow> Some v
            | None \<Rightarrow>
                (case json_loads lib (replace_char (CHR 0x27) (CHR 0x22) snippet) of
                   Some v \<Rightarrow> Some v
                 | None \<Rightarrow> literal_eval lib snippet))
         else None)"

definition parse_json_or_fallback :: "pylib \<Rightarrow> string \<Rightarrow> pyval" where
  "parse_json_or_fallback lib text =
     (if text = [] then PNone
      else case json_loads lib text of
        Some v \<Rightarrow> v
      | None \<Rightarrow>
          (case parse_fenced lib text of
             Some v \<Rightarrow> v
           | None \<Rightarrow>
               (case parse_braces lib text of
                  Some v \<Rightarrow> v
                | None \<Rightarrow> PNone)))"

subsection \<open>The layers of the parser, as the specification lists them\<close>






subsection \<open>\<open>process_resume_file\<close>\<close>

text \<open>\<open>try: body except Exception as e: handler\<close>.\<close>

definition try_except :: "exn + 'a \<Rightarrow> (exn \<Rightarrow> exn + 'a) \<Rightarrow> exn + 'a" where
  "try_except body handler = (case body of Inl e \<Rightarrow> handler e | Inr v \<Rightarrow> Inr v)"

definition resume_prompt :: "string \<Rightarrow> string \<Rightarrow> string" where
  \<open>resume_prompt file_name resume_text =
     ''\<newline>You are an expert resume reviewer. Given the resume text below, produce a JSON object exactly with these keys:\<newline>''
     @ ''- score: integer 0-100 (ATS-style score)\<newline>''
     @ ''- strengths: list of 1-5 short strings\<newline>''
     @ ''- weaknesses: list of 1-5 short strings\<newline>''
     @ ''- suggestions: list of 3-6 short actionable suggestions\<newline>\<newline>''
     @ ''Resume filename: '' @ file_name @ ''\<newline>\<newline>''
     @ ''Resume text:\<newline>"""'' @ resume_text @ ''"""\<newline>\<newline>''
     @ ''Return only valid JSON. Do not add any explanatory text.\<newline>''\<close>

text \<open>The statements under \<open>if parsed:\<close>, up to the \<open>return\<close>.\<close>

definition analysis_of_parsed :: "pylib \<Rightarrow> pyval \<Rightarrow> exn + pyval" where
  "analysis_of_parsed lib parsed =
     andthen (py_get parsed ''score'' (PInt 0)) (\<lambda>sc.
     andthen (py_int lib sc) (\<lambda>score.
     andthen (py_get parsed ''strengths'' PNone) (\<lambda>st.
     andthen (py_get parsed ''weaknesses'' PNone) (\<lambda>wk.
     andthen (py_get parsed ''suggestions'' PNone) (\<lambda>sg.
       let strengths = py_or st (PList []);
           weaknesses = py_or wk (PList []);
           suggestions = py_or sg (PList [])
       in andthen
            (if truthy suggestions
             then andthen (py_join ''; '' suggestions) (\<lambda>j. Inr (PStr (''Suggestions: '' @ j)))
             else py_get parsed ''feedback'' (PStr []))
            (\<lambda>feedback.
               Inr (PDict
                 [(PStr ''score'', PInt score),
                  (PStr ''feedback'', py_or feedback (PStr [])),
                  (PStr ''strengths'', strengths),
                  (PStr ''weaknesses'', weaknesses),
                  (PStr ''suggestions'', suggestions),
                  (PStr ''raw'', parsed)])))))))"

text \<open>The fallback mock analysis: three draws, in the order of the source.\<close>

definition mock_analysis :: "world \<Rightarrow> pyval" where
  "mock_analysis w =
     PDict
       [(PStr ''score'', PInt (randint 35 90 (rand_nat w 0))),
        (PStr ''feedback'',
           PStr ''Mock feedback: emphasize achievements, quantify results, and add relevant keywords.''),
        (PStr ''strengths'',
           if rand_coin w 0 then PList [PStr ''Clear formatting'', PStr ''Relevant experience'']
           else PList [PStr ''Concise summary'']),
        (PStr ''weaknesses'',
           if rand_coin w 1 then PList [PStr ''Missing metrics'', PStr ''Weak keywords'']
           else PList [PStr ''Too generic summary'']),
        (PStr ''suggestions'',
           PList [PStr ''Quantify achievements with numbers'',
                  PStr ''Add specific keywords from job descriptions'',
                  PStr ''List measurable results for major projects''])]"

text \<open>
  The \<open>try\<close> block either returns the analysis (\<open>Some\<close>) or ends without a return
  (\<open>None\<close>), as does the handler; the mock follows in both cases.
\<close>

definition resume_text_or_placeholder :: "world \<Rightarrow> string \<Rightarrow> string" where
  "resume_text_or_placeholder w path =
     (let resume_text = extract_text_from_file w path
      in if resume_text = []
         then ''[Could not extract text from file. Filename: '' @ basename path @ '']''
         else resume_text)"

definition process_resume_file :: "pylib \<Rightarrow> world \<Rightarrow> string \<Rightarrow> exn + pyval" where
  "process_resume_file lib w path =
     (let resume_text = resume_text_or_placeholder w path
      in andthen
           (try_except
              (let prompt = resume_prompt (basename path) resume_text;
                   raw = call_llm w prompt;
                   parsed = parse_json_or_fallback lib raw
               in if truthy parsed
                  then andthen (analysis_of_parsed lib parsed) (\<lambda>d. Inr (Some d))
                  else Inr None)
              (\<lambda>e. Inr None))
           (\<lambda>returned. case returned of
                Some d \<Rightarrow> Inr d
              | None \<Rightarrow> Inr (mock_analysis w)))"

subsection \<open>\<open>analyze_resume_vs_jd\<close>\<close>

definition compare_prompt :: "string \<Rightarrow> string \<Rightarrow> string \<Rightarrow> string \<Rightarrow> string" where
  \<open>compare_prompt resume_content jd_content resume_name jd_title =
     ''Analyze this resume against the job description and return ONLY a valid JSON object with these exact fields:\<newline>\<newline>''
     @ ''{\<newline>''
     @ ''  "match_score": 75,\<newline>''
     @ ''  "ats_score": 80,\<newline>''
     @ ''  "strengths": ["Strong technical background in Python", "Relevant project experience"],\<newline>''
     @ ''  "weaknesses": ["Missing cloud experience", "Limited leadership examples"],\<newline>''
     @ ''  "improvements": ["Add AWS certifications", "Quantify achievements with numbers"],\<newline>''
     @ ''  "matched_keywords": ["Python", "SQL", "Agile"],\<newline>''
     @ ''  "missing_keywords": ["AWS", "Docker", "Kubernetes"],\<newline>''
     @ ''  "experience_match": "Good match for mid-level position",\<newline>''
     @ ''  "skills_alignment": 70,\<newline>''
     @ ''  "recommendation": "Strong candidate with room for improvement",\<newline>''
     @ ''  "resume_name": "'' @ resume_name @ ''",\<newline>''
     @ ''  "jd_title": "'' @ jd_title @ ''"\<newline>''
     @ ''}\<newline>\<newline>''
     @ ''Resume: '' @ take 2000 resume_content @ ''\<newline>\<newline>''
     @ ''Job Description: '' @ take 2000 jd_content @ ''\<newline>\<newline>''
     @ ''Return ONLY the JSON object. No markdown, no explanations, no code blocks.''\<close>

text \<open>From \<open>raw\<close> to \<open>json_str\<close>: fences and backticks removed, then the braces located.\<close>

definition extract_json_str :: "string \<Rightarrow> exn + string" where
  "extract_json_str raw =
     (let raw_clean = strip raw;
          raw_clean = (if startswith raw_clean ''```json'' then drop 7 raw_clean else raw_clean);
          raw_clean = (if startswith raw_clean ''```'' then drop 3 raw_clean else raw_clean);
          raw_clean = (if endswith raw_clean ''```''
                       then take (length raw_clean - 3) raw_clean else raw_clean);
          raw_clean = strip_chars ''`'' raw_clean
      in if startswith raw_clean ''{'' \<and> endswith raw_clean ''}'' then Inr raw_clean
         else
           let start_idx = find_char raw_clean (CHR ''{'');
               end_idx = rfind_char raw_clean (CHR ''}'')
           in if start_idx \<noteq> - 1 \<and> end_idx \<noteq> - 1 \<and> end_idx > start_idx
              then Inr (slice raw_clean start_idx (end_idx + 1))
              else Inl (ValueError ''No valid JSON found in response''))"

definition expected_keys :: "string list" where
  "expected_keys =
     [''match_score'', ''ats_score'', ''strengths'', ''weaknesses'', ''improvements'',
      ''matched_keywords'', ''missing_keywords'', ''experience_match'',
      ''skills_alignment'', ''recommendation'', ''resume_name'', ''jd_title'']"

definition default_for :: "string \<Rightarrow> pyval" where
  "default_for key =
     (if key \<in> set [''strengths'', ''weaknesses'', ''improvements'', ''matched_keywords'',
                      ''missing_keywords'']
      then PList []
      else if key \<notin> set [''match_score'', ''ats_score'', ''skills_alignment''] then PStr []
      else PInt 0)"

text \<open>The loop \<open>for key in expected_keys: if key not in data: data[key] = ...\<close>.\<close>

fun fill_missing :: "string list \<Rightarrow> (pyval \<times> pyval) list \<Rightarrow> (pyval \<times> pyval) list" where
  "fill_missing [] data = data"
| "fill_missing (key # keys) data =
     fill_missing keys
       (if map_of data (PStr key) = None then dict_set data (PStr key) (default_for key)
        else data)"

text \<open>\<open>if not data.get(key): data[key] = content\<close>.\<close>

definition ensure_content ::
  "string \<Rightarrow> pyval \<Rightarrow> (pyval \<times> pyval) list \<Rightarrow> (pyval \<times> pyval) list" where
  "ensure_content key content data =
     (if \<not> truthy (case map_of data (PStr key) of None \<Rightarrow> PNone | Some v \<Rightarrow> v)
      then dict_set data (PStr key) content else data)"

text \<open>
  The \<open>try\<close> block. A value of \<open>json.loads\<close> that is not a dict raises inside the block:
  \<open>key not in data\<close> or \<open>data[key] = ...\<close> raise TypeError on numbers, strings and lists, and
  \<open>data.get\<close> raises AttributeError on what is left.
\<close>

definition content_keys :: "string list" where
  "content_keys = [''strengths'', ''weaknesses'', ''improvements'']"

definition analyze_try :: "pylib \<Rightarrow> string \<Rightarrow> exn + pyval" where
  "analyze_try lib raw =
     andthen (extract_json_str raw) (\<lambda>json_str.
       case json_loads lib json_str of
         None \<Rightarrow> Inl (ValueError ''JSONDecodeError'')
       | Some (PDict loaded) \<Rightarrow>
           let data = fill_missing expected_keys loaded;
               data = ensure_content ''strengths''
                        (PList [PStr ''Resume shows relevant experience'',
                                PStr ''Clear professional formatting'']) data;
               data = ensure_content ''weaknesses''
                        (PList [PStr ''Could benefit from more specific achievements'',
                                PStr ''Missing some key industry keywords'']) data;
               data = ensure_content ''improvements''
                        (PList [PStr ''Quantify achievements with specific numbers'',
                                PStr ''Add more industry-specific keywords'',
                                PStr ''Include measurable results'']) data
           in Inr (PDict data)
       | Some _ \<Rightarrow> Inl TypeError)"

definition mock_comparison :: "world \<Rightarrow> string \<Rightarrow> string \<Rightarrow> pyval" where
  "mock_comparison w resume_name jd_title =
     PDict
       [(PStr ''match_score'', PInt (randint 45 95 (rand_nat w 0))),
        (PStr ''ats_score'', PInt (randint 40 90 (rand_nat w 1))),
        (PStr ''strengths'',
           PList [PStr ''Resume demonstrates relevant technical experience in the field'',
                  PStr ''Clear and professional formatting that's easy to read'',
                  PStr ''Shows progression in career with increasing responsibilities'']),
        (PStr ''weaknesses'',
           PList [PStr ''Missing specific metrics and quantifiable achievements'',
                  PStr ''Could benefit from more industry-specific keywords'',
                  PStr ''Limited examples of leadership or project management experience'']),
        (PStr ''improvements'',
           PList [PStr ''Add specific numbers and percentages to quantify achievements (e.g., 'increased sales by 25%')'',
                  PStr ''Include more keywords from the job description throughout the resume'',
                  PStr ''Add a summary section highlighting key qualifications'',
                  PStr ''Include examples of problem-solving and leadership experience'']),
        (PStr ''matched_keywords'',
           PList [PStr ''python'', PStr ''sql'', PStr ''project management'', PStr ''data analysis'',
                  PStr ''team collaboration'']),
        (PStr ''missing_keywords'',
           PList [PStr ''aws'', PStr ''machine learning'', PStr ''agile methodology'',
                  PStr ''cloud computing'']),
        (PStr ''experience_match'',
           PStr ''Mid-level professional with 3-5 years of relevant experience''),
        (PStr ''skills_alignment'', PInt (randint 60 95 (rand_nat w 2))),
        (PStr ''recommendation'',
           PStr ''Good overall fit with room for improvement. Focus on adding specific metrics and missing technical skills to increase match score.''),
        (PStr ''resume_name'', PStr resume_name),
        (PStr ''jd_title'', PStr jd_title)]"

definition analyze_resume_vs_jd ::
  "pylib \<Rightarrow> world \<Rightarrow> string \<Rightarrow> string \<Rightarrow> string \<Rightarrow> string \<Rightarrow> exn + pyval" where
  "analyze_resume_vs_jd lib w resume_content jd_content resume_name jd_title =
     (let prompt = compare_prompt resume_content jd_content resume_name jd_title;
          raw = call_llm w prompt
      in try_except (analyze_try lib raw)
           (\<lambda>e. Inr (mock_comparison w resume_name jd_title)))"

section \<open>The database (models.py)\<close>

text \<open>
  The other two tables the modelled operations use. The primary keys \<open>id\<close> are
  \<open>scan_id\<close> and \<open>token_id\<close>; tables are lists in the order in which a query without
  \<open>ORDER BY\<close> yields the rows.
\<close>

record ResumeScan =
  scan_id :: int
  scan_user_id :: int
  scan_filename :: string
  original_filename :: string
  file_size :: int
  ats_score :: int
  scan_feedback :: pyval
  analysis :: pyval

record PasswordResetToken =
  token_id :: int
  user_id :: int
  token :: string
  expires_at :: datetime
  used :: bool

record database =
  users :: "user list"
  resumescans :: "ResumeScan list"
  password_reset_tokens :: "PasswordResetToken list"

text \<open>The next value of an auto-increment primary key.\<close>

definition fresh_id :: "int list \<Rightarrow> int" where
  "fresh_id ids = fold max ids 0 + 1"

text \<open>
  \<open>db.commit()\<close> after a mutation of a loaded user object: the row with the object's
  primary key takes the object's state.
\<close>

definition commit_user :: "database \<Rightarrow> user \<Rightarrow> database" where
  "commit_user db u = db\<lparr>users := map (\<lambda>x. if uid x = uid u then u else x) (users db)\<rparr>"

text \<open>Chronological order of two timestamps.\<close>

definition dt_less :: "datetime \<Rightarrow> datetime \<Rightarrow> bool" where
  "dt_less a b =
     (year a < year b \<or> (year a = year b \<and>
       (month a < month b \<or> (month a = month b \<and>
         (day a < day b \<or> (day a = day b \<and> tod a < tod b))))))"

section \<open>Authentication (auth.py)\<close>

text \<open>
  The password context and the JWT library, as answers: \<open>pwd_ctx.hash\<close>,
  \<open>pwd_ctx.verify\<close> (which may raise, UnknownHashError among others) and the \<open>sub\<close>
  claim of a decoded token (\<open>None\<close> for a JWTError, \<open>Some None\<close> for a payload without
  the claim).
\<close>

record authlib =
  ctx_hash :: "string \<Rightarrow> string"
  ctx_verify :: "string \<Rightarrow> string \<Rightarrow> exn + bool"
  jwt_sub :: "string \<Rightarrow> string option option"

definition get_password_hash :: "authlib \<Rightarrow> string \<Rightarrow> string" where
  "get_password_hash al password = ctx_hash al password"

text \<open>\<open>verify_password\<close> re-raises UnknownHashError; every other outcome passes through.\<close>

definition verify_password :: "authlib \<Rightarrow> string \<Rightarrow> string \<Rightarrow> exn + bool" where
  "verify_password al plain hashed =
     (case ctx_verify al plain hashed of
        Inl UnknownHashError \<Rightarrow> Inl UnknownHashError
      | r \<Rightarrow> r)"

text \<open>\<open>db.query(models.User).filter(models.User.email == e).first()\<close>.\<close>

definition user_by_email :: "database \<Rightarrow> string \<Rightarrow> user option" where
  "user_by_email db e = find (\<lambda>u. email u = e) (users db)"

definition create_user ::
  "authlib \<Rightarrow> clock \<Rightarrow> database \<Rightarrow> string \<Rightarrow> string \<Rightarrow> exn + (user \<times> database)" where
  "create_user al clk db e password =
     (case user_by_email db e of
        Some existing \<Rightarrow> Inl (ValueError ''Email already registered'')
      | None \<Rightarrow>
          let u = \<lparr>uid = fresh_id (map uid (users db)), email = e,
                   hashed_password = get_password_hash al password,
                   scan_count = Some 0, last_quota_reset = Some (utcnow clk)\<rparr>
          in Inr (u, db\<lparr>users := users db @ [u]\<rparr>))"

definition authenticate_user ::
  "authlib \<Rightarrow> database \<Rightarrow> string \<Rightarrow> string \<Rightarrow> exn + (user option \<times> database)" where
  "authenticate_user al db e password =
     (case user_by_email db e of
        None \<Rightarrow> Inr (None, db)
      | Some u \<Rightarrow>
          (case verify_password al password (hashed_password u) of
             Inr ok \<Rightarrow> if ok then Inr (Some u, db) else Inr (None, db)
           | Inl UnknownHashError \<Rightarrow>
               let stored = hashed_password u in
               if CHR ''$'' \<notin> set stored \<and> password = stored then
                 let u' = u\<lparr>hashed_password := get_password_hash al password\<rparr>
                 in Inr (Some u', commit_user db u')
               else Inr (None, db)
           | Inl other \<Rightarrow> Inl other))"

text \<open>A request, as far as the handlers read it.\<close>

record request =
  authorization :: "string option"
  session_cookie :: "string option"
  upload_filename :: string

definition get_current_user_from_request :: "authlib \<Rightarrow> database \<Rightarrow> request \<Rightarrow> user option" where
  "get_current_user_from_request al db req =
     (let tok = (case authorization req of
                   Some auth_header \<Rightarrow>
                     if auth_header \<noteq> [] \<and> startswith auth_header ''Bearer ''
                     then Some (takeWhile (\<lambda>c. c \<noteq> CHR '' '') (drop 7 auth_header))
                     else session_cookie req
                 | None \<Rightarrow> session_cookie req)
      in case tok of
           None \<Rightarrow> None
         | Some t \<Rightarrow>
             if t = [] then None
             else (case jwt_sub al t of
                     None \<Rightarrow> None
                   | Some None \<Rightarrow> None
                   | Some (Some e) \<Rightarrow> if e = [] then None else user_by_email db e))"

subsection \<open>Password reset tokens\<close>

definition verify_password_reset_token :: "clock \<Rightarrow> database \<Rightarrow> string \<Rightarrow> user option" where
  "verify_password_reset_token clk db tok =
     (case find (\<lambda>t. token t = tok \<and> used t = False \<and> dt_less (utcnow clk) (expires_at t))
             (password_reset_tokens db) of
        None \<Rightarrow> None
      | Some reset_token \<Rightarrow> find (\<lambda>u. uid u = user_id reset_token) (users db))"

definition use_password_reset_token :: "database \<Rightarrow> string \<Rightarrow> bool \<times> database" where
  "use_password_reset_token db tok =
     (case find (\<lambda>t. token t = tok \<and> used t = False) (password_reset_tokens db) of
        None \<Rightarrow> (False, db)
      | Some reset_token \<Rightarrow>
          (True, db\<lparr>password_reset_tokens :=
             map (\<lambda>t. if token_id t = token_id reset_token then t\<lparr>used := True\<rparr> else t)
               (password_reset_tokens db)\<rparr>))"

definition reset_user_password ::
  "authlib \<Rightarrow> clock \<Rightarrow> database \<Rightarrow> string \<Rightarrow> string \<Rightarrow> bool \<times> database" where
  "reset_user_password al clk db tok new_password =
     (case verify_password_reset_token clk db tok of
        None \<Rightarrow> (False, db)
      | Some u \<Rightarrow>
          let u' = u\<lparr>hashed_password := get_password_hash al new_password\<rparr>;
              db1 = commit_user db u';
              (marked, db2) = use_password_reset_token db1 tok
          in (True, db2))"

text \<open>
  The constraints that models.py declares on the tables these functions read: the
  primary keys, the unique \<open>token\<close> column, and the foreign key from a token to its user.
\<close>

definition schema_ok :: "database \<Rightarrow> bool" where
  "schema_ok db =
     (distinct (map uid (users db))
      \<and> distinct (map token_id (password_reset_tokens db))
      \<and> distinct (map token (password_reset_tokens db))
      \<and> list_all (\<lambda>t. list_ex (\<lambda>u. uid u = user_id t) (users db)) (password_reset_tokens db))"

section \<open>Quota bookkeeping and file names (utils.py)\<close>

definition unlimited_email :: string where
  "unlimited_email = ''nadeemali001@gmail.com''"

text \<open>\<open>user.scan_count or 0\<close>: a missing count and a zero count both read as 0.\<close>

definition scan_count_or_0 :: "user \<Rightarrow> int" where
  "scan_count_or_0 u = (case scan_count u of None \<Rightarrow> 0 | Some c \<Rightarrow> c)"

text \<open>
  \<open>check_and_reset_quota(db, user)\<close> mutates the user object and commits in the
  branches that reset; the model returns the value, the database and the object. The
  \<open>except Exception\<close> arm around the month comparison cannot be reached with a
  \<open>datetime\<close> value and is left out.
\<close>

definition check_and_reset_quota ::
  "settings \<Rightarrow> clock \<Rightarrow> database \<Rightarrow> user \<Rightarrow> int \<times> database \<times> user" where
  "check_and_reset_quota cfg clk db u =
     (if email u = unlimited_email then (999999, db, u)
      else
        let (db1, u1) =
              (case last_quota_reset u of
                 None \<Rightarrow>
                   let u' = u\<lparr>last_quota_reset := Some (utcnow clk), scan_count := Some 0\<rparr>
                   in (commit_user db u', u')
               | Some last_reset \<Rightarrow>
                   if month last_reset \<noteq> month (today clk) \<or> year last_reset \<noteq> year (today clk)
                   then
                     let u' = u\<lparr>scan_count := Some 0, last_quota_reset := Some (utcnow clk)\<rparr>
                     in (commit_user db u', u')
                   else (db, u));
            remaining = MAX_MONTHLY_SCANS cfg - scan_count_or_0 u1
        in (max 0 remaining, db1, u1))"

definition consume_quota :: "database \<Rightarrow> user \<Rightarrow> database \<times> user" where
  "consume_quota db u =
     (if email u = unlimited_email then (db, u)
      else
        let u' = u\<lparr>scan_count := Some (scan_count_or_0 u + 1)\<rparr>
        in (commit_user db u', u'))"

definition allowed_file :: "string \<Rightarrow> bool" where
  "allowed_file file_name =
     (if file_name = [] then False
      else list_ex (\<lambda>ext. endswith (lower file_name) ext) ALLOWED_EXTENSIONS)"

section \<open>The upload endpoint (app.py)\<close>

definition quota_message :: string where
  "quota_message = ''Monthly quota exceeded. Please upgrade or wait for next month.''"

record response =
  status_code :: int
  content :: "(string \<times> pyval) list"

text \<open>
  What the handler needs besides the request and the database: the settings, the
  clock, the libraries, \<open>int(time.time())\<close>, the outcome of writing the upload to a
  path (its size, or \<open>None\<close> when the write raises), and the verdict of the database
  on a new scan row at \<open>db.commit()\<close> (\<open>False\<close> when the INSERT raises).
\<close>

record appenv =
  env_settings :: settings
  env_clock :: clock
  env_lib :: pylib
  env_world :: world
  env_auth :: authlib
  time_time :: int
  save_upload :: "string \<Rightarrow> int option"
  insert_accepted :: "ResumeScan \<Rightarrow> bool"

text \<open>
  What no database takes, whatever else it checks. \<open>ats_score\<close> is an Integer column:
  a value beyond 64 bits cannot be bound. \<open>feedback\<close> is a String column: a list, tuple,
  set or dict cannot be bound, nor an integer beyond 64 bits. \<open>analysis\<close> is a JSON
  column, written with \<open>json.dumps\<close>: sets and bytes do not serialise, and a dict key
  must be a string, a number, a boolean or \<open>None\<close>.
\<close>

definition int64 :: "int \<Rightarrow> bool" where
  "int64 i = (- (2 ^ 63) \<le> i \<and> i < 2 ^ 63)"

fun json_dumps_ok :: "pyval \<Rightarrow> bool" where
  "json_dumps_ok (PList xs) = list_all json_dumps_ok xs"
| "json_dumps_ok (PTuple xs) = list_all json_dumps_ok xs"
| "json_dumps_ok (PDict kvs) =
     list_all (\<lambda>(k, v).
        (case k of PStr s \<Rightarrow> True | PInt i \<Rightarrow> True | PFloat f \<Rightarrow> True | PBool b \<Rightarrow> True
                 | PNone \<Rightarrow> True | _ \<Rightarrow> False) \<and> json_dumps_ok v) kvs"
| "json_dumps_ok (PSet xs) = False"
| "json_dumps_ok (PBytes s) = False"
| "json_dumps_ok _ = True"

definition row_fits :: "ResumeScan \<Rightarrow> bool" where
  "row_fits scan =
     (int64 (ats_score scan)
      \<and> (case scan_feedback scan of
             PList xs \<Rightarrow> False | PTuple xs \<Rightarrow> False | PSet xs \<Rightarrow> False | PDict kvs \<Rightarrow> False
           | PInt i \<Rightarrow> int64 i
           | _ \<Rightarrow> True)
      \<and> json_dumps_ok (analysis scan))"

fun str_of_nat :: "nat \<Rightarrow> string" where
  "str_of_nat n =
     (if n < 10 then [char_of (48 + n)] else str_of_nat (n div 10) @ [char_of (48 + n mod 10)])"

definition str_of_int :: "int \<Rightarrow> string" where
  "str_of_int i = (if i < 0 then CHR ''-'' # str_of_nat (nat (- i)) else str_of_nat (nat i))"

text \<open>\<open>re.sub(r'[^a-zA-Z0-9._-]', '_', name)\<close>.\<close>

definition sanitize :: "string \<Rightarrow> string" where
  "sanitize name =
     map (\<lambda>c. let n = (of_char c :: nat)
              in if (97 \<le> n \<and> n \<le> 122) \<or> (65 \<le> n \<and> n \<le> 90) \<or> (48 \<le> n \<and> n \<le> 57)
                    \<or> c = CHR ''.'' \<or> c = CHR ''_'' \<or> c = CHR ''-''
                 then c else CHR ''_'') name"

text \<open>\<open>os.path.join(a, b)\<close>.\<close>

definition path_join :: "string \<Rightarrow> string \<Rightarrow> string" where
  "path_join a b =
     (if startswith b ''/'' then b
      else if a = [] \<or> endswith a ''/'' then a @ b
      else a @ ''/'' @ b)"

definition json_response :: "int \<Rightarrow> bool \<Rightarrow> string \<Rightarrow> response" where
  "json_response code ok msg =
     \<lparr>status_code = code, content = [(''success'', PBool ok), (''message'', PStr msg)]\<rparr>"

text \<open>
  The statements of the handler after the two validations, inside its \<open>try\<close>. The new
  row and the new count are written by the \<open>db.commit()\<close> of \<open>consume_quota\<close>; when the
  row is refused that call raises and nothing is stored.
\<close>

definition store_upload ::
  "appenv \<Rightarrow> database \<Rightarrow> user \<Rightarrow> string \<Rightarrow> exn + (response \<times> database)" where
  "store_upload env db u file_name =
     (let sanitized_name = sanitize file_name;
          unique_name = str_of_int (uid u) @ ''_'' @ str_of_int (time_time env) @ ''_''
                          @ sanitized_name;
          dest_path = path_join (UPLOAD_DIR (env_settings env)) unique_name
      in case save_upload env dest_path of
           None \<Rightarrow> Inl OtherError
         | Some saved_size \<Rightarrow>
             andthen (process_resume_file (env_lib env) (env_world env) dest_path) (\<lambda>res.
             andthen (py_get res ''raw'' PNone) (\<lambda>raw.
             andthen (py_get res ''score'' PNone) (\<lambda>res_score.
             andthen (py_get res ''strengths'' (PList [])) (\<lambda>res_strengths.
             andthen (py_get res ''weaknesses'' (PList [])) (\<lambda>res_weaknesses.
             andthen (py_get res ''suggestions'' (PList [])) (\<lambda>res_suggestions.
             andthen (py_get res ''score'' (PInt 0)) (\<lambda>sc.
             andthen (py_int (env_lib env) sc) (\<lambda>score.
             andthen (py_get res ''feedback'' (PStr [])) (\<lambda>fb.
               let analysis_payload =
                     (if truthy raw then raw
                      else PDict [(PStr ''score'', res_score),
                                  (PStr ''strengths'', res_strengths),
                                  (PStr ''weaknesses'', res_weaknesses),
                                  (PStr ''suggestions'', res_suggestions)]);
                   scan = \<lparr>scan_id = fresh_id (map scan_id (resumescans db)),
                           scan_user_id = uid u, scan_filename = unique_name,
                           original_filename = file_name, file_size = saved_size,
                           ats_score = score, scan_feedback = fb,
                           analysis = analysis_payload\<rparr>;
                   db2 = db\<lparr>resumescans := resumescans db @ [scan]\<rparr>;
                   (db3, u3) = consume_quota db2 u
               in if row_fits scan \<and> insert_accepted env scan then
                    Inr (\<lparr>status_code = 200,
                         content = [(''success'', PBool True),
                                    (''message'', PStr ''Resume uploaded successfully''),
                                    (''resume_id'', PInt (scan_id scan)),
                                    (''filename'', PStr (original_filename scan)),
                                    (''ats_score'', PInt (ats_score scan)),
                                    (''file_size'', PInt (file_size scan))]\<rparr>,
                         db3)
                  else Inl OtherError))))))))))"

definition api_upload_resume :: "appenv \<Rightarrow> database \<Rightarrow> request \<Rightarrow> response \<times> database" where
  "api_upload_resume env db req =
     (case get_current_user_from_request (env_auth env) db req of
        None \<Rightarrow> (json_response 401 False ''Not authenticated'', db)
      | Some u \<Rightarrow>
          let (remaining, db1, u1) = check_and_reset_quota (env_settings env) (env_clock env) db u in
          if remaining \<le> 0 then
            (json_response 400 False quota_message, db1)
          else if \<not> allowed_file (upload_filename req) then
            (json_response 400 False ''Only PDF or DOCX files are allowed'', db1)
          else
            (case store_upload env db1 u1 (upload_filename req) of
               Inl e \<Rightarrow> (json_response 500 False ''Internal server error'', db1)
             | Inr finished \<Rightarrow> finished))"

section \<open>Example data\<close>

definition ex_clock :: clock where
  "ex_clock = \<lparr>today = \<lparr>year = 2025, month = 11, day = 4\<rparr>,
               utcnow = \<lparr>year = 2025, month = 11, day = 4, tod = 0\<rparr>\<rparr>"

definition ex_this_month :: datetime where
  "ex_this_month = \<lparr>year = 2025, month = 11, day = 1, tod = 0\<rparr>"

definition ex_last_month :: datetime where
  "ex_last_month = \<lparr>year = 2025, month = 10, day = 20, tod = 0\<rparr>"

definition ex_vip :: user where
  "ex_vip = \<lparr>uid = 1, email = ''nadeemali001@gmail.com'', hashed_password = ''$h$pw1'',
             scan_count = Some 10, last_quota_reset = Some ex_this_month\<rparr>"

definition ex_user :: user where
  "ex_user = \<lparr>uid = 2, email = ''ann@example.org'', hashed_password = ''$h$pw2'',
              scan_count = Some 10, last_quota_reset = Some ex_this_month\<rparr>"

definition ex_legacy :: user where
  "ex_legacy = \<lparr>uid = 3, email = ''bob@example.org'', hashed_password = ''plain'',
                scan_count = Some 4, last_quota_reset = Some ex_last_month\<rparr>"

definition ex_token :: PasswordResetToken where
  "ex_token = \<lparr>token_id = 1, user_id = 2, token = ''tok-ann'',
               expires_at = \<lparr>year = 2025, month = 11, day = 5, tod = 0\<rparr>, used = False\<rparr>"

definition ex_db :: database where
  "ex_db = \<lparr>users = [ex_vip, ex_user, ex_legacy], resumescans = [],
            password_reset_tokens = [ex_token]\<rparr>"

text \<open>
  A password context that knows one scheme, marked \<open>$h$\<close>; session tokens are
  \<open>jwt:\<close> followed by the address.
\<close>

definition ex_authlib :: authlib where
  "ex_authlib =
     \<lparr>ctx_hash = (\<lambda>p. ''$h$'' @ p),
      ctx_verify = (\<lambda>p h. if take 3 h = ''$h$'' then Inr (drop 3 h = p) else Inl UnknownHashError),
      jwt_sub = (\<lambda>t. if take 4 t = ''jwt:'' then Some (Some (drop 4 t)) else None)\<rparr>"

text \<open>A \<open>json.loads\<close> that knows one document, and an LLM that answers with it.\<close>

definition ex_lib :: pylib where
  \<open>ex_lib =
     \<lparr>json_loads = (\<lambda>s. if s = ''{"strengths": "x"}''
                          then Some (PDict [(PStr ''strengths'', PStr ''x'')]) else None),
      literal_eval = (\<lambda>s. None),
      int_of_text = (\<lambda>s. None)\<rparr>\<close>

definition ex_world :: world where
  \<open>ex_world =
     \<lparr>read_pdf = (\<lambda>p. None), read_docx = (\<lambda>p. None),
      ollama_post = (\<lambda>p. Some ''{"strengths": "x"}''),
      rand_nat = (\<lambda>i. 7), rand_coin = (\<lambda>i. True)\<rparr>\<close>

definition ex_offline :: world where
  "ex_offline = ex_world\<lparr>ollama_post := (\<lambda>p. None)\<rparr>"

text \<open>
  An LLM that answers with the Python literal \<open>{'ok': True}\<close>, which is not JSON, also
  not with double quotes: \<open>json.loads\<close> fails on every text of this run and
  \<open>ast.literal_eval\<close> reads the reply. Then what \<open>process_resume_file\<close> returns.
\<close>

definition ex_literal_lib :: pylib where
  "ex_literal_lib =
     \<lparr>json_loads = (\<lambda>s. None),
      literal_eval = (\<lambda>s. if s = ''{'ok': True}''
                            then Some (PDict [(PStr ''ok'', PBool True)]) else None),
      int_of_text = (\<lambda>s. None)\<rparr>"

definition ex_literal_world :: world where
  "ex_literal_world = ex_world\<lparr>ollama_post := (\<lambda>p. Some ''{'ok': True}'')\<rparr>"

definition ex_literal_analysis :: pyval where
  "ex_literal_analysis =
     PDict
       [(PStr ''score'', PInt 0),
        (PStr ''feedback'', PStr []),
        (PStr ''strengths'', PList []),
        (PStr ''weaknesses'', PList []),
        (PStr ''suggestions'', PList []),
        (PStr ''raw'', PDict [(PStr ''ok'', PBool True)])]"

text \<open>What the comparison returns when the LLM answers with that document.\<close>

definition ex_comparison :: pyval where
  "ex_comparison =
     PDict
       [(PStr ''strengths'', PStr ''x''),
        (PStr ''match_score'', PInt 0),
        (PStr ''ats_score'', PInt 0),
        (PStr ''weaknesses'',
           PList [PStr ''Could benefit from more specific achievements'',
                  PStr ''Missing some key industry keywords'']),
        (PStr ''improvements'',
           PList [PStr ''Quantify achievements with specific numbers'',
                  PStr ''Add more industry-specific keywords'',
                  PStr ''Include measurable results'']),
        (PStr ''matched_keywords'', PList []),
        (PStr ''missing_keywords'', PList []),
        (PStr ''experience_match'', PStr []),
        (PStr ''skills_alignment'', PInt 0),
        (PStr ''recommendation'', PStr []),
        (PStr ''resume_name'', PStr []),
        (PStr ''jd_title'', PStr [])]"

definition ex_env :: appenv where
  "ex_env = \<lparr>env_settings = default_settings, env_clock = ex_clock, env_lib = ex_lib,
             env_world = ex_offline, env_auth = ex_authlib, time_time = 1762250000,
             save_upload = (\<lambda>p. Some 2048), insert_accepted = (\<lambda>scan. True)\<rparr>"

text \<open>An LLM whose JSON gives a list as feedback, and the server that talks to it.\<close>

definition ex_list_lib :: pylib where
  \<open>ex_list_lib =
     \<lparr>json_loads = (\<lambda>s. if s = ''{"feedback": ["a"]}''
                          then Some (PDict [(PStr ''feedback'', PList [PStr ''a''])]) else None),
      literal_eval = (\<lambda>s. None),
      int_of_text = (\<lambda>s. None)\<rparr>\<close>

definition ex_list_env :: appenv where
  \<open>ex_list_env =
     ex_env\<lparr>env_lib := ex_list_lib,
            env_world := ex_world\<lparr>ollama_post := (\<lambda>p. Some ''{"feedback": ["a"]}'')\<rparr>\<rparr>\<close>

definition ex_request :: "string \<Rightarrow> string \<Rightarrow> request" where
  "ex_request who file_name =
     \<lparr>authorization = Some (''Bearer jwt:'' @ who), session_cookie = None,
      upload_filename = file_name\<rparr>"

definition ex_anonymous :: request where
  "ex_anonymous = \<lparr>authorization = None, session_cookie = None, upload_filename = ''notes.txt''\<rparr>"

section \<open>Properties\<close>

subsection \<open>Unfolding sets and helper lemmas\<close>

lemmas ex_defs = ex_clock_def ex_this_month_def ex_last_month_def ex_vip_def ex_user_def
  ex_legacy_def ex_token_def ex_db_def ex_authlib_def ex_lib_def ex_world_def ex_offline_def
  ex_env_def ex_request_def ex_anonymous_def default_settings_def unlimited_email_def

lemmas str_defs = startswith_def endswith_def lower_def lower_char_def isspace_def strip_def
  lstrip_with_def rstrip_with_def strip_chars_def find_char_def rfind_char_def slice_def
  replace_char_def

lemmas upload_defs = api_upload_resume_def get_current_user_from_request_def user_by_email_def
  check_and_reset_quota_def consume_quota_def commit_user_def scan_count_or_0_def
  allowed_file_def ALLOWED_EXTENSIONS_def json_response_def quota_message_def

lemmas analysis_defs = store_upload_def process_resume_file_def andthen_def try_except_def
  call_llm_def parse_json_or_fallback_def mock_analysis_def extract_text_from_file_def
  resume_text_or_placeholder_def row_fits_def int64_def randint_def Let_def

lemma endswith_iff_suffix: "endswith s suf \<longleftrightarrow> suffix suf s"
proof
  assume "endswith s suf"
  then have "s = take (length s - length suf) s @ suf"
    by (metis append_take_drop_id endswith_def)
  then show "suffix suf s" by (rule suffixI)
next
  assume "suffix suf s"
  then obtain zs where "s = zs @ suf" by (auto simp: suffix_def)
  then show "endswith s suf" by (simp add: endswith_def)
qed

lemma users_consume_quota:
  "users (fst (consume_quota db u)) =
     (if email u = unlimited_email then users db
      else map (\<lambda>x. if uid x = uid u then u\<lparr>scan_count := Some (scan_count_or_0 u + 1)\<rparr> else x)
             (users db))"
  by (simp add: consume_quota_def Let_def commit_user_def)

lemma scans_consume_quota: "resumescans (fst (consume_quota db u)) = resumescans db"
  by (simp add: consume_quota_def Let_def commit_user_def)

lemma consume_quota_scans_irrelevant:
  "users (fst (consume_quota (db\<lparr>resumescans := s\<rparr>) u)) = users (fst (consume_quota db u))"
  by (simp add: consume_quota_def Let_def commit_user_def)

lemma store_upload_result:
  assumes "store_upload env db u f = Inr (r, db')"
  shows "users db' = users (fst (consume_quota db u))
       \<and> (\<exists>scan. resumescans db' = resumescans db @ [scan])
       \<and> status_code r = 200"
  using assms
  by (auto simp: store_upload_def andthen_def Let_def case_prod_beta
        consume_quota_scans_irrelevant scans_consume_quota
      split: option.splits sum.splits if_splits)

lemma find_email_in: "find (\<lambda>u. email u = e) us = Some u \<Longrightarrow> u \<in> set us \<and> email u = e"
  by (induction us) (auto split: if_splits)

lemma current_user_in_db:
  "get_current_user_from_request al db req = Some u \<Longrightarrow> u \<in> set (users db)"
  by (auto simp: get_current_user_from_request_def user_by_email_def Let_def
      split: option.splits if_splits dest: find_email_in)

lemma analysis_of_parsed_shape:
  assumes "analysis_of_parsed lib parsed = Inr d"
  shows "\<exists>score fb st wk sg.
           d = PDict [(PStr ''score'', PInt score), (PStr ''feedback'', fb), (PStr ''strengths'', st),
                      (PStr ''weaknesses'', wk), (PStr ''suggestions'', sg), (PStr ''raw'', parsed)]"
  using assms
  by (auto simp: analysis_of_parsed_def andthen_def Let_def split: sum.splits if_splits)

lemma randint_bounds: "a \<le> b \<Longrightarrow> a \<le> randint a b r \<and> randint a b r \<le> b"
proof -
  assume ab: "a \<le> b"
  then have pos: "0 < nat (b - a + 1)" by simp
  have "r mod nat (b - a + 1) < nat (b - a + 1)" using pos by (rule mod_less_divisor)
  then have "int (r mod nat (b - a + 1)) < b - a + 1" using ab by linarith
  then show ?thesis by (simp add: randint_def)
qed

lemma mock_analysis_keys:
  "dict_get (mock_analysis w) ''score'' = Some (PInt (randint 35 90 (rand_nat w 0)))"
  "has_key (mock_analysis w) ''score''" "has_key (mock_analysis w) ''feedback''"
  "has_key (mock_analysis w) ''strengths''" "has_key (mock_analysis w) ''weaknesses''"
  "has_key (mock_analysis w) ''suggestions''" "is_dict (mock_analysis w)"
  by (simp_all add: mock_analysis_def dict_get_def has_key_def is_dict_def)

lemma process_resume_file_cases:
  "process_resume_file lib w path = Inr (mock_analysis w)
   \<or> (\<exists>d parsed. process_resume_file lib w path = Inr d \<and> truthy parsed
         \<and> analysis_of_parsed lib parsed = Inr d)"
  by (auto simp: process_resume_file_def try_except_def andthen_def Let_def split: sum.splits)

lemma process_resume_file_shape:
  "\<exists>d n. process_resume_file lib w path = Inr d \<and> is_dict d
     \<and> dict_get d ''score'' = Some (PInt n)
     \<and> has_key d ''score'' \<and> has_key d ''feedback'' \<and> has_key d ''strengths''
     \<and> has_key d ''weaknesses'' \<and> has_key d ''suggestions''"
proof -
  from process_resume_file_cases [of lib w path] show ?thesis
  proof
    assume "process_resume_file lib w path = Inr (mock_analysis w)"
    then show ?thesis using mock_analysis_keys by blast
  next
    assume "\<exists>d parsed. process_resume_file lib w path = Inr d \<and> truthy parsed
         \<and> analysis_of_parsed lib parsed = Inr d"
    then obtain d parsed where p: "process_resume_file lib w path = Inr d"
      and a: "analysis_of_parsed lib parsed = Inr d" by blast
    from analysis_of_parsed_shape [OF a] obtain score fb st wk sg where
      "d = PDict [(PStr ''score'', PInt score), (PStr ''feedback'', fb), (PStr ''strengths'', st),
                      (PStr ''weaknesses'', wk), (PStr ''suggestions'', sg), (PStr ''raw'', parsed)]"
      by blast
    then have "is_dict d \<and> dict_get d ''score'' = Some (PInt score)
     \<and> has_key d ''score'' \<and> has_key d ''feedback'' \<and> has_key d ''strengths''
     \<and> has_key d ''weaknesses'' \<and> has_key d ''suggestions''"
      by (simp add: dict_get_def has_key_def is_dict_def)
    with p show ?thesis by blast
  qed
qed

lemma parse_empty: "parse_json_or_fallback lib [] = PNone"
  by (simp add: parse_json_or_fallback_def)

lemma strip_empty: "strip [] = []"
  by (simp add: strip_def lstrip_with_def rstrip_with_def)

text \<open>
  A row that does not fit its columns is not stored: when the LLM gives a list as
  feedback the commit raises, the answer is 500 and no scan row is written.
\<close>

lemma upload_refused_row:
  "status_code (fst (api_upload_resume ex_list_env ex_db (ex_request ''bob@example.org'' ''cv.pdf'')))
     = 500
   \<and> resumescans (snd (api_upload_resume ex_list_env ex_db
        (ex_request ''bob@example.org'' ''cv.pdf''))) = []"
  by (simp add: ex_list_env_def ex_list_lib_def ex_defs upload_defs str_defs analysis_defs
      analysis_of_parsed_def py_or_def)

subsection \<open>The monthly quota at the upload endpoint\<close>

text \<open>
  C1 (as amended). For an authenticated user other than the one with the unlimited
  address, whose \<open>last_quota_reset\<close> lies in the current month and year and whose
  \<open>scan_count\<close> has reached \<open>MAX_MONTHLY_SCANS\<close>, \<open>api_upload_resume\<close> answers 400 with the
  quota message and leaves the database as it was: no \<open>ResumeScan\<close> row, no change of
  \<open>scan_count\<close>. And for every request, if \<open>MAX_MONTHLY_SCANS\<close> is not negative and no
  user's count exceeds it before, none exceeds it afterwards.
\<close>

theorem upload_quota_enforced:
  "(get_current_user_from_request (env_auth env) db req = Some u
      \<and> email u \<noteq> unlimited_email
      \<and> last_quota_reset u = Some l
      \<and> month l = month (today (env_clock env)) \<and> year l = year (today (env_clock env))
      \<and> MAX_MONTHLY_SCANS (env_settings env) \<le> scan_count_or_0 u
    \<longrightarrow> api_upload_resume env db req = (json_response 400 False quota_message, db))
   \<and> (0 \<le> MAX_MONTHLY_SCANS (env_settings env)
        \<and> (\<forall>x \<in> set (users db). scan_count_or_0 x \<le> MAX_MONTHLY_SCANS (env_settings env))
      \<longrightarrow> (\<forall>x \<in> set (users (snd (api_upload_resume env db req))).
             scan_count_or_0 x \<le> MAX_MONTHLY_SCANS (env_settings env)))"
proof (intro conjI impI)
  assume h: "get_current_user_from_request (env_auth env) db req = Some u
      \<and> email u \<noteq> unlimited_email
      \<and> last_quota_reset u = Some l
      \<and> month l = month (today (env_clock env)) \<and> year l = year (today (env_clock env))
      \<and> MAX_MONTHLY_SCANS (env_settings env) \<le> scan_count_or_0 u"
  then show "api_upload_resume env db req = (json_response 400 False quota_message, db)"
    by (simp add: api_upload_resume_def check_and_reset_quota_def quota_message_def)
next
  let ?M = "MAX_MONTHLY_SCANS (env_settings env)"
  assume inv: "0 \<le> ?M \<and> (\<forall>x \<in> set (users db). scan_count_or_0 x \<le> ?M)"
  show "\<forall>x \<in> set (users (snd (api_upload_resume env db req))). scan_count_or_0 x \<le> ?M"
  proof (cases "get_current_user_from_request (env_auth env) db req")
    case None
    with inv show ?thesis by (simp add: api_upload_resume_def)
  next
    case (Some u0)
    then have u0_in: "u0 \<in> set (users db)" by (rule current_user_in_db)
    obtain r db1 u1 where chk: "check_and_reset_quota (env_settings env) (env_clock env) db u0 = (r, db1, u1)"
      by (cases "check_and_reset_quota (env_settings env) (env_clock env) db u0") auto
    have db1_ok: "\<forall>x \<in> set (users db1). scan_count_or_0 x \<le> ?M"
      using chk inv
      by (auto simp: check_and_reset_quota_def Let_def commit_user_def scan_count_or_0_def
          split: if_splits option.splits)
    have u1_ok: "email u1 \<noteq> unlimited_email \<Longrightarrow> 0 < r \<Longrightarrow> scan_count_or_0 u1 < ?M"
      using chk by (auto simp: check_and_reset_quota_def Let_def split: if_splits option.splits)
    have email1: "email u1 = email u0"
      using chk by (auto simp: check_and_reset_quota_def Let_def split: if_splits option.splits)
    show ?thesis
    proof (cases "r \<le> 0 \<or> \<not> allowed_file (upload_filename req)")
      case True
      with Some chk db1_ok show ?thesis by (auto simp: api_upload_resume_def)
    next
      case False
      show ?thesis
      proof (cases "store_upload env db1 u1 (upload_filename req)")
        case (Inl e)
        with Some chk False db1_ok show ?thesis by (auto simp: api_upload_resume_def)
      next
        case (Inr res)
        obtain rr db3 where d: "res = (rr, db3)" by (cases res)
        from Inr d have us: "users db3 = users (fst (consume_quota db1 u1))"
          using store_upload_result by blast
        have "\<forall>x \<in> set (users db3). scan_count_or_0 x \<le> ?M"
          using us db1_ok u1_ok False
          by (auto simp: users_consume_quota scan_count_or_0_def split: if_splits)
        with Some chk False Inr d show ?thesis by (auto simp: api_upload_resume_def)
      qed
    qed
  qed
qed

text \<open>
  The theorem at work: Ann has used her ten scans this month; her upload of \<open>cv.pdf\<close>
  is refused and nothing changes.
\<close>

theorem upload_quota_enforced_witness:
  "api_upload_resume ex_env ex_db (ex_request ''ann@example.org'' ''cv.pdf'')
     = (json_response 400 False quota_message, ex_db)
   \<and> list_all (\<lambda>x. scan_count_or_0 x \<le> 10)
        (users (snd (api_upload_resume ex_env ex_db (ex_request ''ann@example.org'' ''cv.pdf''))))"
proof -
  let ?req = "ex_request ''ann@example.org'' ''cv.pdf''"
  have h1: "get_current_user_from_request (env_auth ex_env) ex_db ?req = Some ex_user
      \<and> email ex_user \<noteq> unlimited_email
      \<and> last_quota_reset ex_user = Some ex_this_month
      \<and> month ex_this_month = month (today (env_clock ex_env))
      \<and> year ex_this_month = year (today (env_clock ex_env))
      \<and> MAX_MONTHLY_SCANS (env_settings ex_env) \<le> scan_count_or_0 ex_user"
    by (simp add: ex_defs upload_defs str_defs)
  have h2: "0 \<le> MAX_MONTHLY_SCANS (env_settings ex_env)
      \<and> (\<forall>x \<in> set (users ex_db). scan_count_or_0 x \<le> MAX_MONTHLY_SCANS (env_settings ex_env))"
    by (simp add: ex_defs scan_count_or_0_def)
  have m: "MAX_MONTHLY_SCANS (env_settings ex_env) = 10" by (simp add: ex_defs)
  from upload_quota_enforced [of ex_env ex_db ?req ex_user ex_this_month] h1 h2
  show ?thesis by (simp add: list_all_iff m)
qed

text \<open>
  The claim as first stated, for every authenticated user, fails for the unlimited
  address: with \<open>scan_count\<close> at the maximum in the current month the upload is accepted
  and a scan row is stored.
\<close>

theorem upload_quota_unlimited_counterexample:
  "get_current_user_from_request (env_auth ex_env) ex_db (ex_request ''nadeemali001@gmail.com'' ''cv.pdf'')
      = Some ex_vip
   \<and> last_quota_reset ex_vip = Some ex_this_month
   \<and> month ex_this_month = month (today (env_clock ex_env))
   \<and> year ex_this_month = year (today (env_clock ex_env))
   \<and> scan_count ex_vip = Some (MAX_MONTHLY_SCANS (env_settings ex_env))
   \<and> status_code (fst (api_upload_resume ex_env ex_db (ex_request ''nadeemali001@gmail.com'' ''cv.pdf''))) = 200
   \<and> length (resumescans (snd (api_upload_resume ex_env ex_db
        (ex_request ''nadeemali001@gmail.com'' ''cv.pdf'')))) = length (resumescans ex_db) + 1"
  by (simp add: ex_defs upload_defs str_defs analysis_defs)


subsection \<open>\<open>check_and_reset_quota\<close>\<close>

text \<open>
  C2 (as amended). For every user other than the one with the unlimited address,
  \<open>check_and_reset_quota\<close> sets \<open>scan_count\<close> to 0 and \<open>last_quota_reset\<close> to the current
  time, and commits, whenever the stored \<open>last_quota_reset\<close> is missing or its month or
  year differs from today's; otherwise it changes nothing. In all these cases it returns
  \<open>max(0, MAX_MONTHLY_SCANS - scan_count)\<close> for the count after the reset (a missing count
  reads as 0); the value is never negative, and it is at most \<open>MAX_MONTHLY_SCANS\<close> when
  neither that setting nor the stored count is negative. For the user with the unlimited
  address it returns 999999 and changes nothing.
\<close>

theorem check_and_reset_quota_metered:
  "(email u \<noteq> unlimited_email \<longrightarrow>
     (case check_and_reset_quota cfg clk db u of (r, db', u') \<Rightarrow>
        ((last_quota_reset u = None \<or>
          (\<exists>l. last_quota_reset u = Some l \<and>
               (month l \<noteq> month (today clk) \<or> year l \<noteq> year (today clk))))
          \<longrightarrow> u' = u\<lparr>scan_count := Some 0, last_quota_reset := Some (utcnow clk)\<rparr>
              \<and> db' = commit_user db u')
      \<and> ((\<exists>l. last_quota_reset u = Some l \<and> month l = month (today clk)
                \<and> year l = year (today clk))
          \<longrightarrow> u' = u \<and> db' = db)
      \<and> r = max 0 (MAX_MONTHLY_SCANS cfg - scan_count_or_0 u')
      \<and> 0 \<le> r
      \<and> (0 \<le> MAX_MONTHLY_SCANS cfg \<and> 0 \<le> scan_count_or_0 u \<longrightarrow> r \<le> MAX_MONTHLY_SCANS cfg)))
   \<and> (email u = unlimited_email \<longrightarrow> check_and_reset_quota cfg clk db u = (999999, db, u))"
  by (auto simp: check_and_reset_quota_def Let_def scan_count_or_0_def split: option.splits)

text \<open>
  Bob's last reset was in October: his count goes to 0 and all ten scans remain. Ann
  has used ten scans in November: nothing changes and none remain. The unlimited user
  gets 999999.
\<close>

theorem check_and_reset_quota_metered_witness:
  "email ex_legacy \<noteq> unlimited_email
   \<and> last_quota_reset ex_legacy = Some ex_last_month
   \<and> month ex_last_month \<noteq> month (today ex_clock)
   \<and> 0 \<le> MAX_MONTHLY_SCANS default_settings \<and> 0 \<le> scan_count_or_0 ex_legacy
   \<and> check_and_reset_quota default_settings ex_clock ex_db ex_legacy
       = (10, commit_user ex_db (ex_legacy\<lparr>scan_count := Some 0, last_quota_reset := Some (utcnow ex_clock)\<rparr>),
          ex_legacy\<lparr>scan_count := Some 0, last_quota_reset := Some (utcnow ex_clock)\<rparr>)
   \<and> email ex_user \<noteq> unlimited_email
   \<and> last_quota_reset ex_user = Some ex_this_month
   \<and> month ex_this_month = month (today ex_clock) \<and> year ex_this_month = year (today ex_clock)
   \<and> check_and_reset_quota default_settings ex_clock ex_db ex_user = (0, ex_db, ex_user)
   \<and> email ex_vip = unlimited_email
   \<and> check_and_reset_quota default_settings ex_clock ex_db ex_vip = (999999, ex_db, ex_vip)"
proof -
  have v: "email ex_vip = unlimited_email" by (simp add: ex_defs)
  from check_and_reset_quota_metered [where u = ex_vip and cfg = default_settings
      and clk = ex_clock and db = ex_db] v
  have 3: "check_and_reset_quota default_settings ex_clock ex_db ex_vip = (999999, ex_db, ex_vip)"
    by iprover
  have a: "email ex_legacy \<noteq> unlimited_email" "last_quota_reset ex_legacy = Some ex_last_month"
    "month ex_last_month \<noteq> month (today ex_clock)"
    "0 \<le> MAX_MONTHLY_SCANS default_settings" "0 \<le> scan_count_or_0 ex_legacy"
    by (simp_all add: ex_defs scan_count_or_0_def)
  have b: "email ex_user \<noteq> unlimited_email" "last_quota_reset ex_user = Some ex_this_month"
    "month ex_this_month = month (today ex_clock)" "year ex_this_month = year (today ex_clock)"
    "scan_count_or_0 ex_user = 10" "MAX_MONTHLY_SCANS default_settings = 10"
    by (simp_all add: ex_defs scan_count_or_0_def)
  from check_and_reset_quota_metered [where u = ex_legacy and cfg = default_settings and clk = ex_clock and db = ex_db] a
  have 1: "check_and_reset_quota default_settings ex_clock ex_db ex_legacy
       = (10, commit_user ex_db (ex_legacy\<lparr>scan_count := Some 0, last_quota_reset := Some (utcnow ex_clock)\<rparr>),
          ex_legacy\<lparr>scan_count := Some 0, last_quota_reset := Some (utcnow ex_clock)\<rparr>)"
    by (auto simp: b scan_count_or_0_def split: prod.splits)
  from check_and_reset_quota_metered [where u = ex_user and cfg = default_settings and clk = ex_clock and db = ex_db] b
  have 2: "check_and_reset_quota default_settings ex_clock ex_db ex_user = (0, ex_db, ex_user)"
    by (auto split: prod.splits)
  from a b 1 2 v 3 show ?thesis by simp
qed

text \<open>
  The claim as first stated, for every user, fails for the unlimited address: with
  \<open>last_quota_reset\<close> missing nothing is reset, and the value returned, 999999, is neither
  \<open>max(0, 10 - 10)\<close> nor at most 10.
\<close>

theorem check_and_reset_quota_unlimited_counterexample:
  "last_quota_reset (ex_vip\<lparr>last_quota_reset := None\<rparr>) = None
   \<and> check_and_reset_quota default_settings ex_clock ex_db (ex_vip\<lparr>last_quota_reset := None\<rparr>)
       = (999999, ex_db, ex_vip\<lparr>last_quota_reset := None\<rparr>)
   \<and> scan_count (ex_vip\<lparr>last_quota_reset := None\<rparr>) = Some 10
   \<and> (999999 :: int) \<noteq> max 0 (MAX_MONTHLY_SCANS default_settings - 10)
   \<and> \<not> (999999 :: int) \<le> MAX_MONTHLY_SCANS default_settings"
  by (simp add: ex_defs check_and_reset_quota_def)


subsection \<open>The unlimited address\<close>

text \<open>
  C9. For the user whose address is exactly \<open>nadeemali001@gmail.com\<close>,
  \<open>check_and_reset_quota\<close> returns 999999 whatever \<open>scan_count\<close> and \<open>last_quota_reset\<close>
  hold, and changes neither the user nor the database; \<open>consume_quota\<close> changes nothing
  either. So an upload of this user passes the quota check whatever the count: the
  handler goes on to the file name and to storing the upload, its answer is never the
  quota message, and no user's count changes.
\<close>

theorem unlimited_user_never_metered:
  "email u = unlimited_email \<longrightarrow>
     check_and_reset_quota cfg clk db (u\<lparr>scan_count := sc, last_quota_reset := lq\<rparr>)
       = (999999, db, u\<lparr>scan_count := sc, last_quota_reset := lq\<rparr>)
     \<and> consume_quota db u = (db, u)
     \<and> (get_current_user_from_request (env_auth env) db req = Some u \<longrightarrow>
          api_upload_resume env db req
            = (if \<not> allowed_file (upload_filename req)
               then (json_response 400 False ''Only PDF or DOCX files are allowed'', db)
               else case store_upload env db u (upload_filename req) of
                      Inl e \<Rightarrow> (json_response 500 False ''Internal server error'', db)
                    | Inr finished \<Rightarrow> finished)
          \<and> fst (api_upload_resume env db req) \<noteq> json_response 400 False quota_message
          \<and> users (snd (api_upload_resume env db req)) = users db)"
proof (intro impI conjI)
  assume e: "email u = unlimited_email"
  then show "check_and_reset_quota cfg clk db (u\<lparr>scan_count := sc, last_quota_reset := lq\<rparr>)
       = (999999, db, u\<lparr>scan_count := sc, last_quota_reset := lq\<rparr>)"
    by (simp add: check_and_reset_quota_def)
  from e show "consume_quota db u = (db, u)" by (simp add: consume_quota_def)
  assume a: "get_current_user_from_request (env_auth env) db req = Some u"
  have chk: "check_and_reset_quota (env_settings env) (env_clock env) db u = (999999, db, u)"
    using e by (simp add: check_and_reset_quota_def)
  show up: "api_upload_resume env db req =
      (if \<not> allowed_file (upload_filename req)
       then (json_response 400 False ''Only PDF or DOCX files are allowed'', db)
       else case store_upload env db u (upload_filename req) of
              Inl e \<Rightarrow> (json_response 500 False ''Internal server error'', db)
            | Inr finished \<Rightarrow> finished)"
    using a chk by (simp add: api_upload_resume_def)
  have res: "\<And>r db'. store_upload env db u (upload_filename req) = Inr (r, db')
      \<Longrightarrow> users db' = users db \<and> status_code r = 200"
    using store_upload_result [of env db u "upload_filename req"] e
    by (auto simp: users_consume_quota)
  have st: "status_code (json_response 400 False quota_message) = 400"
    by (simp add: json_response_def)
  have msg: "json_response 400 False ''Only PDF or DOCX files are allowed''
               \<noteq> json_response 400 False quota_message"
    by (simp add: json_response_def quota_message_def)
  have st5: "json_response 500 False ''Internal server error'' \<noteq> json_response 400 False quota_message"
    by (simp add: json_response_def)
  show "fst (api_upload_resume env db req) \<noteq> json_response 400 False quota_message"
  proof (cases "allowed_file (upload_filename req)")
    case False
    then show ?thesis using msg by (simp add: up)
  next
    case True
    show ?thesis
    proof (cases "store_upload env db u (upload_filename req)")
      case (Inl x)
      with True st5 show ?thesis by (simp add: up)
    next
      case (Inr fin)
      obtain r db' where fin: "fin = (r, db')" by (cases fin)
      from res [of r db'] Inr fin have "status_code r = 200" by simp
      then have "r \<noteq> json_response 400 False quota_message" using st by auto
      with True Inr fin show ?thesis by (simp add: up)
    qed
  qed
  show "users (snd (api_upload_resume env db req)) = users db"
  proof (cases "allowed_file (upload_filename req)")
    case False
    then show ?thesis by (simp add: up)
  next
    case True
    show ?thesis
    proof (cases "store_upload env db u (upload_filename req)")
      case (Inl x)
      with True show ?thesis by (simp add: up)
    next
      case (Inr fin)
      obtain r db' where fin: "fin = (r, db')" by (cases fin)
      from res [of r db'] Inr fin have "users db' = users db" by simp
      with True Inr fin show ?thesis by (simp add: up)
    qed
  qed
qed

text \<open>
  The unlimited user, ten scans on record, uploads \<open>cv.pdf\<close>: the quota check lets the
  request through, the answer is what storing the upload gives, and the counts stay.
\<close>

theorem unlimited_user_never_metered_witness:
  "email ex_vip = unlimited_email
   \<and> get_current_user_from_request (env_auth ex_env) ex_db
         (ex_request ''nadeemali001@gmail.com'' ''cv.pdf'') = Some ex_vip
   \<and> scan_count ex_vip = Some (MAX_MONTHLY_SCANS default_settings)
   \<and> check_and_reset_quota default_settings ex_clock ex_db ex_vip = (999999, ex_db, ex_vip)
   \<and> consume_quota ex_db ex_vip = (ex_db, ex_vip)
   \<and> allowed_file ''cv.pdf''
   \<and> api_upload_resume ex_env ex_db (ex_request ''nadeemali001@gmail.com'' ''cv.pdf'')
        = (case store_upload ex_env ex_db ex_vip ''cv.pdf'' of
             Inl e \<Rightarrow> (json_response 500 False ''Internal server error'', ex_db)
           | Inr finished \<Rightarrow> finished)
   \<and> fst (api_upload_resume ex_env ex_db (ex_request ''nadeemali001@gmail.com'' ''cv.pdf''))
        \<noteq> json_response 400 False quota_message
   \<and> users (snd (api_upload_resume ex_env ex_db
         (ex_request ''nadeemali001@gmail.com'' ''cv.pdf''))) = users ex_db"
proof -
  let ?req = "ex_request ''nadeemali001@gmail.com'' ''cv.pdf''"
  have h1: "email ex_vip = unlimited_email" by (simp add: ex_defs)
  have h2: "get_current_user_from_request (env_auth ex_env) ex_db ?req = Some ex_vip"
    by (simp add: ex_defs get_current_user_from_request_def user_by_email_def startswith_def)
  have h3: "allowed_file ''cv.pdf''"
    by (simp add: allowed_file_def ALLOWED_EXTENSIONS_def str_defs)
  have h4: "scan_count ex_vip = Some (MAX_MONTHLY_SCANS default_settings)"
    by (simp add: ex_defs)
  have f: "upload_filename ?req = ''cv.pdf''" by (simp add: ex_request_def)
  have same: "ex_vip\<lparr>scan_count := scan_count ex_vip, last_quota_reset := last_quota_reset ex_vip\<rparr>
                = ex_vip" by simp
  from h3 have pass: "\<And>x y :: response \<times> database.
      (if \<not> allowed_file ''cv.pdf'' then x else y) = y" by simp
  note inst = unlimited_user_never_metered [where u = ex_vip and cfg = default_settings
      and clk = ex_clock and db = ex_db and env = ex_env and req = ?req
      and sc = "scan_count ex_vip" and lq = "last_quota_reset ex_vip", unfolded same f pass]
  from inst h1 h2 h3 h4 show ?thesis by iprover
qed

subsection \<open>\<open>allowed_file\<close>\<close>

text \<open>
  C3 (as amended). \<open>allowed_file\<close> holds of a file name exactly when the name is not
  empty and its lower-case form ends with \<open>.pdf\<close> or \<open>.docx\<close>. A request whose file name
  fails the check never creates a scan record; \<open>api_upload_resume\<close> answers it with 400
  when the request is authenticated and with 401 when it is not.
\<close>

theorem upload_file_type_checked:
  "(allowed_file f \<longleftrightarrow> f \<noteq> [] \<and> (suffix ''.pdf'' (lower f) \<or> suffix ''.docx'' (lower f)))
   \<and> (\<not> allowed_file (upload_filename req) \<longrightarrow>
        status_code (fst (api_upload_resume env db req))
          = (case get_current_user_from_request (env_auth env) db req of
               None \<Rightarrow> 401 | Some u \<Rightarrow> 400)
        \<and> resumescans (snd (api_upload_resume env db req)) = resumescans db)"
proof (intro conjI impI)
  show "allowed_file f \<longleftrightarrow> f \<noteq> [] \<and> (suffix ''.pdf'' (lower f) \<or> suffix ''.docx'' (lower f))"
    by (simp add: allowed_file_def ALLOWED_EXTENSIONS_def endswith_iff_suffix)
next
  assume n: "\<not> allowed_file (upload_filename req)"
  have scans: "\<And>u. resumescans (fst (snd (check_and_reset_quota (env_settings env) (env_clock env) db u)))
                  = resumescans db"
    by (simp add: check_and_reset_quota_def Let_def commit_user_def split: option.splits)
  show "status_code (fst (api_upload_resume env db req))
          = (case get_current_user_from_request (env_auth env) db req of
               None \<Rightarrow> 401 | Some u \<Rightarrow> 400)"
    using n by (simp add: api_upload_resume_def json_response_def case_prod_beta Let_def
        split: option.splits)
  show "resumescans (snd (api_upload_resume env db req)) = resumescans db"
    using n scans by (simp add: api_upload_resume_def case_prod_beta Let_def split: option.splits)
qed

text \<open>Bob, authenticated and with quota left, uploads \<open>notes.txt\<close>: 400, no scan row.\<close>

theorem upload_file_type_checked_witness:
  "\<not> allowed_file (upload_filename (ex_request ''bob@example.org'' ''notes.txt''))
   \<and> get_current_user_from_request (env_auth ex_env) ex_db
        (ex_request ''bob@example.org'' ''notes.txt'') = Some ex_legacy
   \<and> status_code (fst (api_upload_resume ex_env ex_db (ex_request ''bob@example.org'' ''notes.txt'')))
        = 400
   \<and> resumescans (snd (api_upload_resume ex_env ex_db (ex_request ''bob@example.org'' ''notes.txt'')))
        = resumescans ex_db"
proof -
  let ?req = "ex_request ''bob@example.org'' ''notes.txt''"
  have h1: "\<not> allowed_file (upload_filename ?req)"
    by (simp add: ex_request_def allowed_file_def ALLOWED_EXTENSIONS_def str_defs)
  have h2: "get_current_user_from_request (env_auth ex_env) ex_db ?req = Some ex_legacy"
    by (simp add: ex_defs get_current_user_from_request_def user_by_email_def startswith_def)
  from upload_file_type_checked [where req = ?req and env = ex_env and db = ex_db] h1 h2
  show ?thesis by simp
qed

text \<open>
  The claim as first stated promises 400 for any such file; a request without
  credentials is answered with 401 before the file name is looked at.
\<close>

theorem upload_file_type_unauthenticated_counterexample:
  "\<not> allowed_file (upload_filename ex_anonymous)
   \<and> status_code (fst (api_upload_resume ex_env ex_db ex_anonymous)) = 401"
  by (simp add: ex_defs upload_defs str_defs)


subsection \<open>\<open>process_resume_file\<close>\<close>

text \<open>
  C4 (as amended). \<open>process_resume_file\<close> never raises: for every library, world and
  path it returns a dict that has the keys \<open>score\<close>, \<open>feedback\<close>, \<open>strengths\<close>,
  \<open>weaknesses\<close> and \<open>suggestions\<close>. Whenever the LLM call fails, or
  \<open>_parse_json_or_fallback\<close> returns \<open>None\<close> for its output (no layer reads it: not as
  JSON, not after the comma and quote repairs, not as a Python literal), the result is
  the mock analysis, whose score is an integer from 35 to 90.
\<close>

theorem process_resume_file_total:
  "(\<exists>d. process_resume_file lib w path = Inr d \<and> is_dict d
        \<and> has_key d ''score'' \<and> has_key d ''feedback'' \<and> has_key d ''strengths''
        \<and> has_key d ''weaknesses'' \<and> has_key d ''suggestions'')
   \<and> (ollama_post w (resume_prompt (basename path) (resume_text_or_placeholder w path)) = None
        \<or> parse_json_or_fallback lib
             (call_llm w (resume_prompt (basename path) (resume_text_or_placeholder w path))) = PNone
       \<longrightarrow> process_resume_file lib w path = Inr (mock_analysis w))
   \<and> (\<exists>n. dict_get (mock_analysis w) ''score'' = Some (PInt n) \<and> 35 \<le> n \<and> n \<le> 90)"
proof (intro conjI impI)
  show "\<exists>d. process_resume_file lib w path = Inr d \<and> is_dict d
        \<and> has_key d ''score'' \<and> has_key d ''feedback'' \<and> has_key d ''strengths''
        \<and> has_key d ''weaknesses'' \<and> has_key d ''suggestions''"
    using process_resume_file_shape [of lib w path] by blast
next
  let ?prompt = "resume_prompt (basename path) (resume_text_or_placeholder w path)"
  assume "ollama_post w ?prompt = None \<or> parse_json_or_fallback lib (call_llm w ?prompt) = PNone"
  then have "parse_json_or_fallback lib (call_llm w ?prompt) = PNone"
    by (auto simp: call_llm_def parse_empty)
  then show "process_resume_file lib w path = Inr (mock_analysis w)"
    by (simp add: process_resume_file_def try_except_def andthen_def Let_def)
next
  have "(35::int) \<le> 90" by simp
  from randint_bounds [OF this, of "rand_nat w 0"] mock_analysis_keys(1) [of w]
  show "\<exists>n. dict_get (mock_analysis w) ''score'' = Some (PInt n) \<and> 35 \<le> n \<and> n \<le> 90"
    by blast
qed

text \<open>With the LLM unreachable the mock analysis comes back; the draw 7 gives score 42.\<close>

theorem process_resume_file_total_witness:
  "ollama_post ex_offline (resume_prompt (basename ''uploads/cv.pdf'')
       (resume_text_or_placeholder ex_offline ''uploads/cv.pdf'')) = None
   \<and> process_resume_file ex_lib ex_offline ''uploads/cv.pdf'' = Inr (mock_analysis ex_offline)
   \<and> dict_get (mock_analysis ex_offline) ''score'' = Some (PInt 42)"
proof -
  have h: "ollama_post ex_offline (resume_prompt (basename ''uploads/cv.pdf'')
       (resume_text_or_placeholder ex_offline ''uploads/cv.pdf'')) = None"
    by (simp add: ex_offline_def)
  have s: "dict_get (mock_analysis ex_offline) ''score'' = Some (PInt 42)"
    by (simp add: mock_analysis_def dict_get_def randint_def ex_offline_def ex_world_def)
  from process_resume_file_total [of ex_lib ex_offline "''uploads/cv.pdf''"] h s
  show ?thesis by simp
qed

text \<open>
  The claim as first stated sends every output that is not JSON to the mock. The reply
  \<open>{'ok': True}\<close> is not JSON, nor is it after the repairs, but the last layer reads it
  as a Python literal: the result is built from it, with score 0, and is not the mock.
\<close>

lemma ex_literal_reply: "call_llm ex_literal_world p = ''{'ok': True}''"
  by (simp add: call_llm_def ex_literal_world_def ex_world_def str_defs)

lemma ex_literal_parsed:
  "parse_json_or_fallback ex_literal_lib ''{'ok': True}'' = PDict [(PStr ''ok'', PBool True)]"
  by (simp add: parse_json_or_fallback_def parse_fenced_def parse_braces_def match_fence_at_def
      ex_literal_lib_def str_defs Let_def)

lemma ex_literal_built:
  "analysis_of_parsed ex_literal_lib (PDict [(PStr ''ok'', PBool True)]) = Inr ex_literal_analysis"
  by (simp add: analysis_of_parsed_def andthen_def py_or_def ex_literal_analysis_def Let_def)

theorem process_resume_file_literal_counterexample:
  \<open>call_llm ex_literal_world
       (resume_prompt (basename ''uploads/cv.pdf'')
          (resume_text_or_placeholder ex_literal_world ''uploads/cv.pdf'')) = ''{'ok': True}''
   \<and> json_loads ex_literal_lib ''{'ok': True}'' = None
   \<and> json_loads ex_literal_lib ''{"ok": True}'' = None
   \<and> process_resume_file ex_literal_lib ex_literal_world ''uploads/cv.pdf''
        = Inr ex_literal_analysis
   \<and> dict_get ex_literal_analysis ''score'' = Some (PInt 0)
   \<and> dict_get (mock_analysis ex_literal_world) ''score'' = Some (PInt 42)
   \<and> ex_literal_analysis \<noteq> mock_analysis ex_literal_world\<close>
proof -
  have r: "call_llm ex_literal_world
       (resume_prompt (basename ''uploads/cv.pdf'')
          (resume_text_or_placeholder ex_literal_world ''uploads/cv.pdf'')) = ''{'ok': True}''"
    by (rule ex_literal_reply)
  have p: "process_resume_file ex_literal_lib ex_literal_world ''uploads/cv.pdf''
        = Inr ex_literal_analysis"
    unfolding process_resume_file_def Let_def r ex_literal_parsed ex_literal_built
    by (simp add: try_except_def andthen_def)
  have s0: "dict_get ex_literal_analysis ''score'' = Some (PInt 0)"
    by (simp add: ex_literal_analysis_def dict_get_def)
  have s1: "dict_get (mock_analysis ex_literal_world) ''score'' = Some (PInt 42)"
    by (simp add: mock_analysis_def dict_get_def randint_def ex_literal_world_def ex_world_def)
  from s0 s1 have ne: "ex_literal_analysis \<noteq> mock_analysis ex_literal_world" by auto
  have j: \<open>json_loads ex_literal_lib ''{'ok': True}'' = None\<close>
    \<open>json_loads ex_literal_lib ''{"ok": True}'' = None\<close>
    by (simp_all add: ex_literal_lib_def)
  from r j p s0 s1 ne show ?thesis by iprover
qed


subsection \<open>Registration\<close>

lemma find_by_key:
  assumes "distinct (map key xs)"
  shows "find (\<lambda>x. key x = k \<and> Q x) xs = Some x \<longleftrightarrow> x \<in> set xs \<and> key x = k \<and> Q x"
  using assms
proof (induction xs)
  case Nil
  then show ?case by simp
next
  case (Cons a xs)
  then show ?case by (auto simp: image_iff)
qed

lemma find_by_key_plain:
  assumes "distinct (map key xs)"
  shows "find (\<lambda>x. key x = k) xs = Some x \<longleftrightarrow> x \<in> set xs \<and> key x = k"
  using find_by_key [OF assms, of k "\<lambda>x. True" x] by simp

text \<open>
  C7. \<open>create_user\<close> raises \<open>ValueError('Email already registered')\<close> exactly when a
  user with the given address is in the database, and it raises nothing else. Otherwise
  it appends exactly one user, with that address and with the hash of the given
  password, and addresses that were unique before are unique afterwards.
\<close>

theorem create_user_spec:
  "(create_user al clk db e p = Inl (ValueError ''Email already registered'')
      \<longleftrightarrow> (\<exists>u \<in> set (users db). email u = e))
   \<and> ((\<exists>x. create_user al clk db e p = Inl x) \<longleftrightarrow> (\<exists>u \<in> set (users db). email u = e))
   \<and> (\<not> (\<exists>u \<in> set (users db). email u = e) \<longrightarrow>
        (\<exists>u. create_user al clk db e p = Inr (u, db\<lparr>users := users db @ [u]\<rparr>)
             \<and> email u = e \<and> hashed_password u = get_password_hash al p
             \<and> (distinct (map email (users db)) \<longrightarrow> distinct (map email (users db @ [u])))))"
proof (cases "user_by_email db e")
  case None
  then have no: "\<not> (\<exists>u \<in> set (users db). email u = e)"
    by (simp add: user_by_email_def find_None_iff)
  with None show ?thesis
    by (auto simp: create_user_def Let_def image_iff)
next
  case (Some a)
  then have "\<exists>u \<in> set (users db). email u = e"
    by (auto simp: user_by_email_def dest: find_email_in)
  with Some show ?thesis by (simp add: create_user_def)
qed

text \<open>A new address is registered as user 4; Ann's address is refused.\<close>

theorem create_user_spec_witness:
  "user_by_email ex_db ''new@example.org'' = None
   \<and> distinct (map email (users ex_db))
   \<and> create_user ex_authlib ex_clock ex_db ''new@example.org'' ''secret''
        = Inr (\<lparr>uid = 4, email = ''new@example.org'', hashed_password = ''$h$secret'',
                 scan_count = Some 0, last_quota_reset = Some (utcnow ex_clock)\<rparr>,
               ex_db\<lparr>users := users ex_db @
                 [\<lparr>uid = 4, email = ''new@example.org'', hashed_password = ''$h$secret'',
                   scan_count = Some 0, last_quota_reset = Some (utcnow ex_clock)\<rparr>]\<rparr>)
   \<and> distinct (map email (users ex_db @
         [\<lparr>uid = 4, email = ''new@example.org'', hashed_password = ''$h$secret'',
           scan_count = Some 0, last_quota_reset = Some (utcnow ex_clock)\<rparr>]))
   \<and> create_user ex_authlib ex_clock ex_db ''ann@example.org'' ''secret''
        = Inl (ValueError ''Email already registered'')"
proof -
  let ?new = "\<lparr>uid = 4, email = ''new@example.org'', hashed_password = ''$h$secret'',
               scan_count = Some 0, last_quota_reset = Some (utcnow ex_clock)\<rparr>"
  have h0: "user_by_email ex_db ''new@example.org'' = None"
    by (simp add: ex_defs user_by_email_def)
  then have h1: "\<not> (\<exists>u \<in> set (users ex_db). email u = ''new@example.org'')"
    by (simp add: user_by_email_def find_None_iff)
  have h2: "distinct (map email (users ex_db))" by (simp add: ex_defs)
  have h3: "\<exists>u \<in> set (users ex_db). email u = ''ann@example.org''" by (simp add: ex_defs)
  have ev: "create_user ex_authlib ex_clock ex_db ''new@example.org'' ''secret''
              = Inr (?new, ex_db\<lparr>users := users ex_db @ [?new]\<rparr>)"
    by (simp add: create_user_def h0 Let_def get_password_hash_def fresh_id_def ex_authlib_def)
       (simp add: ex_defs)
  from create_user_spec [where al = ex_authlib and clk = ex_clock and db = ex_db
      and e = "''new@example.org''" and p = "''secret''"] h1 h2
  obtain u where "create_user ex_authlib ex_clock ex_db ''new@example.org'' ''secret''
              = Inr (u, ex_db\<lparr>users := users ex_db @ [u]\<rparr>)"
      and d: "distinct (map email (users ex_db @ [u]))"
    by auto
  with ev have "u = ?new" by simp
  with d have a: "distinct (map email (users ex_db @ [?new]))" by simp
  from create_user_spec [where al = ex_authlib and clk = ex_clock and db = ex_db
      and e = "''ann@example.org''" and p = "''secret''"] h3
  have b: "create_user ex_authlib ex_clock ex_db ''ann@example.org'' ''secret''
        = Inl (ValueError ''Email already registered'')" by blast
  from h0 h2 ev a b show ?thesis by blast
qed

subsection \<open>Login with a stored plain-text password\<close>

text \<open>
  C10. In \<open>authenticate_user\<close>, when the user exists and verifying the stored value
  raises UnknownHashError: if the stored value contains no \<open>$\<close> and equals the supplied
  password, the user is authenticated and \<open>hashed_password\<close> is overwritten, and
  committed, with the hash of that password; if the password differs from the stored
  value, or the stored value contains \<open>$\<close>, the result is \<open>None\<close> and nothing changes.
\<close>

theorem authenticate_user_plaintext_fallback:
  "user_by_email db e = Some u \<and> ctx_verify al p (hashed_password u) = Inl UnknownHashError
   \<longrightarrow> (CHR ''$'' \<notin> set (hashed_password u) \<and> p = hashed_password u
          \<longrightarrow> authenticate_user al db e p
                = Inr (Some (u\<lparr>hashed_password := get_password_hash al p\<rparr>),
                       commit_user db (u\<lparr>hashed_password := get_password_hash al p\<rparr>)))
       \<and> (p \<noteq> hashed_password u \<or> CHR ''$'' \<in> set (hashed_password u)
          \<longrightarrow> authenticate_user al db e p = Inr (None, db))"
  by (auto simp: authenticate_user_def verify_password_def Let_def)

text \<open>
  Bob's row holds the plain text \<open>plain\<close>: logging in with it succeeds and stores the
  hash; a wrong guess is refused.
\<close>

theorem authenticate_user_plaintext_fallback_witness:
  "user_by_email ex_db ''bob@example.org'' = Some ex_legacy
   \<and> ctx_verify ex_authlib ''plain'' (hashed_password ex_legacy) = Inl UnknownHashError
   \<and> CHR ''$'' \<notin> set (hashed_password ex_legacy) \<and> ''plain'' = hashed_password ex_legacy
   \<and> authenticate_user ex_authlib ex_db ''bob@example.org'' ''plain''
        = Inr (Some (ex_legacy\<lparr>hashed_password := ''$h$plain''\<rparr>),
               commit_user ex_db (ex_legacy\<lparr>hashed_password := ''$h$plain''\<rparr>))
   \<and> ctx_verify ex_authlib ''guess'' (hashed_password ex_legacy) = Inl UnknownHashError
   \<and> ''guess'' \<noteq> hashed_password ex_legacy
   \<and> authenticate_user ex_authlib ex_db ''bob@example.org'' ''guess'' = Inr (None, ex_db)"
proof -
  have h1: "user_by_email ex_db ''bob@example.org'' = Some ex_legacy"
    by (simp add: ex_defs user_by_email_def)
  have h2: "ctx_verify ex_authlib ''plain'' (hashed_password ex_legacy) = Inl UnknownHashError"
    "ctx_verify ex_authlib ''guess'' (hashed_password ex_legacy) = Inl UnknownHashError"
    by (simp_all add: ex_defs)
  have hp: "hashed_password ex_legacy = ''plain''" by (simp add: ex_defs)
  have h3: "CHR ''$'' \<notin> set (hashed_password ex_legacy)" "''plain'' = hashed_password ex_legacy"
    "''guess'' \<noteq> hashed_password ex_legacy"
    by (simp_all add: hp)
  have g: "get_password_hash ex_authlib ''plain'' = ''$h$plain''"
    by (simp add: get_password_hash_def ex_authlib_def)
  from authenticate_user_plaintext_fallback [where db = ex_db and e = "''bob@example.org''"
      and u = ex_legacy and al = ex_authlib and p = "''plain''"] h1 h2(1) h3(1)
  have a: "authenticate_user ex_authlib ex_db ''bob@example.org'' ''plain''
        = Inr (Some (ex_legacy\<lparr>hashed_password := ''$h$plain''\<rparr>),
               commit_user ex_db (ex_legacy\<lparr>hashed_password := ''$h$plain''\<rparr>))"
    by (simp add: g hp)
  from authenticate_user_plaintext_fallback [where db = ex_db and e = "''bob@example.org''"
      and u = ex_legacy and al = ex_authlib and p = "''guess''"] h1 h2(2)
  have b: "authenticate_user ex_authlib ex_db ''bob@example.org'' ''guess'' = Inr (None, ex_db)"
    by (simp add: hp)
  from h1 h2 h3 a b show ?thesis by blast
qed


subsection \<open>Password reset tokens\<close>

lemma list_ex_find: "list_ex P xs \<Longrightarrow> \<exists>x. find P xs = Some x"
  by (induction xs) auto

lemma verify_token_iff:
  assumes "schema_ok db"
  shows "verify_password_reset_token clk db tok = Some u \<longleftrightarrow>
           (\<exists>t \<in> set (password_reset_tokens db).
               token t = tok \<and> \<not> used t \<and> dt_less (utcnow clk) (expires_at t)
               \<and> u \<in> set (users db) \<and> uid u = user_id t)"
proof -
  from assms have dt: "distinct (map token (password_reset_tokens db))"
    and du: "distinct (map uid (users db))" by (simp_all add: schema_ok_def)
  let ?Q = "\<lambda>t. used t = False \<and> dt_less (utcnow clk) (expires_at t)"
  have ft: "\<And>t. find (\<lambda>t. token t = tok \<and> ?Q t) (password_reset_tokens db) = Some t
               \<longleftrightarrow> t \<in> set (password_reset_tokens db) \<and> token t = tok \<and> ?Q t"
    using find_by_key [OF dt, of tok ?Q] by simp
  have fu: "\<And>k. find (\<lambda>u. uid u = k) (users db) = Some u \<longleftrightarrow> u \<in> set (users db) \<and> uid u = k"
    using find_by_key_plain [OF du] by simp
  show ?thesis
  proof
    assume "verify_password_reset_token clk db tok = Some u"
    then obtain t where "find (\<lambda>t. token t = tok \<and> ?Q t) (password_reset_tokens db) = Some t"
      and "find (\<lambda>u. uid u = user_id t) (users db) = Some u"
      by (auto simp: verify_password_reset_token_def split: option.splits)
    with ft fu show "\<exists>t \<in> set (password_reset_tokens db).
               token t = tok \<and> \<not> used t \<and> dt_less (utcnow clk) (expires_at t)
               \<and> u \<in> set (users db) \<and> uid u = user_id t" by auto
  next
    assume "\<exists>t \<in> set (password_reset_tokens db).
               token t = tok \<and> \<not> used t \<and> dt_less (utcnow clk) (expires_at t)
               \<and> u \<in> set (users db) \<and> uid u = user_id t"
    then obtain t where t: "t \<in> set (password_reset_tokens db)" "token t = tok" "?Q t"
      and u: "u \<in> set (users db)" "uid u = user_id t" by auto
    from t ft have "find (\<lambda>t. token t = tok \<and> ?Q t) (password_reset_tokens db) = Some t" by simp
    moreover from u fu have "find (\<lambda>u. uid u = user_id t) (users db) = Some u" by simp
    ultimately show "verify_password_reset_token clk db tok = Some u"
      by (simp add: verify_password_reset_token_def)
  qed
qed

lemma verify_token_None_iff:
  assumes "schema_ok db"
  shows "verify_password_reset_token clk db tok = None \<longleftrightarrow>
           \<not> (\<exists>t \<in> set (password_reset_tokens db).
               token t = tok \<and> \<not> used t \<and> dt_less (utcnow clk) (expires_at t))"
proof -
  from assms have fk: "\<forall>t \<in> set (password_reset_tokens db). list_ex (\<lambda>u. uid u = user_id t) (users db)"
    by (simp add: schema_ok_def list_all_iff)
  show ?thesis
  proof (cases "find (\<lambda>t. token t = tok \<and> used t = False \<and> dt_less (utcnow clk) (expires_at t))
             (password_reset_tokens db)")
    case None
    then have v: "verify_password_reset_token clk db tok = None"
      by (simp add: verify_password_reset_token_def)
    from None have "\<not> (\<exists>t \<in> set (password_reset_tokens db).
               token t = tok \<and> \<not> used t \<and> dt_less (utcnow clk) (expires_at t))"
      by (auto simp: find_None_iff)
    with v show ?thesis by simp
  next
    case (Some t)
    then have t: "t \<in> set (password_reset_tokens db)" "token t = tok" "\<not> used t"
      "dt_less (utcnow clk) (expires_at t)"
      by (auto simp: find_Some_iff)
    with fk have "list_ex (\<lambda>u. uid u = user_id t) (users db)" by blast
    then obtain u where "find (\<lambda>u. uid u = user_id t) (users db) = Some u"
      using list_ex_find by blast
    with Some t show ?thesis by (auto simp: verify_password_reset_token_def)
  qed
qed

lemma use_token_marks:
  assumes "schema_ok db" and "t \<in> set (password_reset_tokens db)" and "token t = tok" and "\<not> used t"
  shows "use_password_reset_token (commit_user db u') tok =
           (True, (commit_user db u')\<lparr>password_reset_tokens :=
               map (\<lambda>x. if token x = tok then x\<lparr>used := True\<rparr> else x) (password_reset_tokens db)\<rparr>)"
proof -
  from assms have dt: "distinct (map token (password_reset_tokens db))"
    and di: "distinct (map token_id (password_reset_tokens db))" by (simp_all add: schema_ok_def)
  have "find (\<lambda>t. token t = tok \<and> used t = False) (password_reset_tokens db) = Some t"
    using find_by_key [OF dt, of tok "\<lambda>t. used t = False" t] assms by simp
  moreover have "map (\<lambda>x. if token_id x = token_id t then x\<lparr>used := True\<rparr> else x) (password_reset_tokens db)
      = map (\<lambda>x. if token x = tok then x\<lparr>used := True\<rparr> else x) (password_reset_tokens db)"
  proof (rule map_cong [OF refl])
    fix x assume x: "x \<in> set (password_reset_tokens db)"
    have "token_id x = token_id t \<longleftrightarrow> x = t"
      using di x assms(2) by (auto simp: distinct_map dest: inj_onD)
    moreover have "token x = tok \<longleftrightarrow> x = t"
      using dt x assms(2,3) by (auto simp: distinct_map dest: inj_onD)
    ultimately show "(if token_id x = token_id t then x\<lparr>used := True\<rparr> else x)
        = (if token x = tok then x\<lparr>used := True\<rparr> else x)" by simp
  qed
  ultimately show ?thesis
    by (simp add: use_password_reset_token_def commit_user_def)
qed

text \<open>
  C8. On a database that satisfies the declared keys and constraints,
  \<open>verify_password_reset_token\<close> returns a user exactly when a token row with that
  token string exists, is unused and expires strictly after now, and the user is the one
  the row refers to. For any other token \<open>reset_user_password\<close> returns \<open>False\<close> and
  leaves the database, and so every \<open>hashed_password\<close>, as it was; on success it
  returns \<open>True\<close>, stores the hash of the new password for that user and marks the
  token used.
\<close>

theorem password_reset_token_spec:
  "schema_ok db \<longrightarrow>
     (verify_password_reset_token clk db tok = Some u \<longleftrightarrow>
        (\<exists>t \<in> set (password_reset_tokens db).
            token t = tok \<and> \<not> used t \<and> dt_less (utcnow clk) (expires_at t)
            \<and> u \<in> set (users db) \<and> uid u = user_id t))
   \<and> (verify_password_reset_token clk db tok \<noteq> None \<longleftrightarrow>
        (\<exists>t \<in> set (password_reset_tokens db).
            token t = tok \<and> \<not> used t \<and> dt_less (utcnow clk) (expires_at t)))
   \<and> (verify_password_reset_token clk db tok = None \<longrightarrow>
        reset_user_password al clk db tok pw = (False, db))
   \<and> (verify_password_reset_token clk db tok = Some u \<longrightarrow>
        reset_user_password al clk db tok pw =
          (True, db\<lparr>users := map (\<lambda>x. if uid x = uid u
                                       then u\<lparr>hashed_password := get_password_hash al pw\<rparr> else x)
                               (users db),
                     password_reset_tokens :=
                       map (\<lambda>x. if token x = tok then x\<lparr>used := True\<rparr> else x)
                         (password_reset_tokens db)\<rparr>))"
proof (intro impI conjI)
  assume ok: "schema_ok db"
  show "verify_password_reset_token clk db tok = Some u \<longleftrightarrow>
        (\<exists>t \<in> set (password_reset_tokens db).
            token t = tok \<and> \<not> used t \<and> dt_less (utcnow clk) (expires_at t)
            \<and> u \<in> set (users db) \<and> uid u = user_id t)"
    by (rule verify_token_iff [OF ok])
  show "verify_password_reset_token clk db tok \<noteq> None \<longleftrightarrow>
        (\<exists>t \<in> set (password_reset_tokens db).
            token t = tok \<and> \<not> used t \<and> dt_less (utcnow clk) (expires_at t))"
    using verify_token_None_iff [OF ok, of clk tok] by simp
  show "reset_user_password al clk db tok pw = (False, db)"
    if "verify_password_reset_token clk db tok = None"
    using that by (simp add: reset_user_password_def)
  show "reset_user_password al clk db tok pw =
          (True, db\<lparr>users := map (\<lambda>x. if uid x = uid u
                                       then u\<lparr>hashed_password := get_password_hash al pw\<rparr> else x)
                               (users db),
                     password_reset_tokens :=
                       map (\<lambda>x. if token x = tok then x\<lparr>used := True\<rparr> else x)
                         (password_reset_tokens db)\<rparr>)"
    if v: "verify_password_reset_token clk db tok = Some u"
  proof -
    from v verify_token_iff [OF ok, of clk tok u]
    obtain t where t: "t \<in> set (password_reset_tokens db)" "token t = tok" "\<not> used t" by blast
    from use_token_marks [OF ok t, of "u\<lparr>hashed_password := get_password_hash al pw\<rparr>"] v
    show ?thesis by (simp add: reset_user_password_def Let_def commit_user_def)
  qed
qed


text \<open>Ann's token is valid until tomorrow and resets her password; \<open>bogus\<close> does nothing.\<close>

theorem password_reset_token_spec_witness:
  "schema_ok ex_db
   \<and> verify_password_reset_token ex_clock ex_db ''tok-ann'' = Some ex_user
   \<and> reset_user_password ex_authlib ex_clock ex_db ''tok-ann'' ''fresh''
        = (True, ex_db\<lparr>users := [ex_vip, ex_user\<lparr>hashed_password := ''$h$fresh''\<rparr>, ex_legacy],
                        password_reset_tokens := [ex_token\<lparr>used := True\<rparr>]\<rparr>)
   \<and> verify_password_reset_token ex_clock ex_db ''bogus'' = None
   \<and> reset_user_password ex_authlib ex_clock ex_db ''bogus'' ''fresh'' = (False, ex_db)"
proof -
  have ok: "schema_ok ex_db" by (simp add: schema_ok_def ex_defs)
  have v1: "verify_password_reset_token ex_clock ex_db ''tok-ann'' = Some ex_user"
    by (simp add: verify_password_reset_token_def dt_less_def ex_defs)
  have v2: "verify_password_reset_token ex_clock ex_db ''bogus'' = None"
    by (simp add: verify_password_reset_token_def ex_defs)
  have us: "map (\<lambda>x. if uid x = uid ex_user
                      then ex_user\<lparr>hashed_password := get_password_hash ex_authlib ''fresh''\<rparr> else x)
              (users ex_db) = [ex_vip, ex_user\<lparr>hashed_password := ''$h$fresh''\<rparr>, ex_legacy]"
    by (simp add: ex_defs get_password_hash_def)
  have ts: "map (\<lambda>x. if token x = ''tok-ann'' then x\<lparr>used := True\<rparr> else x) (password_reset_tokens ex_db)
              = [ex_token\<lparr>used := True\<rparr>]"
    by (simp add: ex_defs)
  from password_reset_token_spec [where db = ex_db and clk = ex_clock and tok = "''tok-ann''"
      and u = ex_user and al = ex_authlib and pw = "''fresh''"] ok v1
  have "reset_user_password ex_authlib ex_clock ex_db ''tok-ann'' ''fresh''
        = (True, ex_db\<lparr>users := map (\<lambda>x. if uid x = uid ex_user
                      then ex_user\<lparr>hashed_password := get_password_hash ex_authlib ''fresh''\<rparr> else x)
                         (users ex_db),
                        password_reset_tokens :=
                          map (\<lambda>x. if token x = ''tok-ann'' then x\<lparr>used := True\<rparr> else x)
                            (password_reset_tokens ex_db)\<rparr>)"
    by blast
  then have a: "reset_user_password ex_authlib ex_clock ex_db ''tok-ann'' ''fresh''
        = (True, ex_db\<lparr>users := [ex_vip, ex_user\<lparr>hashed_password := ''$h$fresh''\<rparr>, ex_legacy],
                        password_reset_tokens := [ex_token\<lparr>used := True\<rparr>]\<rparr>)"
    by (simp only: us ts)
  from password_reset_token_spec [where db = ex_db and clk = ex_clock and tok = "''bogus''"
      and al = ex_authlib and pw = "''fresh''"] ok v2
  have b: "reset_user_password ex_authlib ex_clock ex_db ''bogus'' ''fresh'' = (False, ex_db)"
    by simp
  from ok v1 a v2 b show ?thesis by blast
qed


subsection \<open>\<open>analyze_resume_vs_jd\<close>\<close>

lemma map_of_dict_set: "map_of (dict_set kvs k v) k' = (if k' = k then Some v else map_of kvs k')"
  by (induction kvs) auto

lemma dict_get_fill_missing:
  "dict_get (PDict (fill_missing keys data)) k =
     (case dict_get (PDict data) k of
        Some v \<Rightarrow> Some v
      | None \<Rightarrow> if k \<in> set keys then Some (default_for k) else None)"
  by (induction keys arbitrary: data) (auto simp: dict_get_def map_of_dict_set split: option.splits)

lemma dict_get_ensure_content:
  "dict_get (PDict (ensure_content key c data)) k =
     (if k = key \<and> \<not> truthy_at (PDict data) key then Some c else dict_get (PDict data) k)"
  by (auto simp: ensure_content_def dict_get_def truthy_at_def map_of_dict_set split: option.splits)

lemma has_key_fill_missing: "k \<in> set keys \<Longrightarrow> has_key (PDict (fill_missing keys data)) k"
  by (simp add: has_key_def dict_get_fill_missing split: option.splits)

lemma has_key_ensure_content:
  "has_key (PDict data) k \<Longrightarrow> has_key (PDict (ensure_content key c data)) k"
  by (simp add: has_key_def dict_get_ensure_content)

lemma truthy_at_ensured: "truthy c \<Longrightarrow> truthy_at (PDict (ensure_content key c data)) key"
  by (simp add: truthy_at_def dict_get_ensure_content)

lemma truthy_at_ensure_content:
  "truthy_at (PDict data) k \<Longrightarrow> truthy_at (PDict (ensure_content key c data)) k"
  by (auto simp: truthy_at_def dict_get_ensure_content)

lemma truthy_kept:
  "dict_get (PDict data) k = Some v \<Longrightarrow> truthy v \<Longrightarrow>
     dict_get (PDict (ensure_content key c data)) k = Some v"
  by (auto simp: dict_get_ensure_content truthy_at_def)

lemma analyze_try_Inr:
  assumes "analyze_try lib raw = Inr d"
  obtains json_str loaded where "extract_json_str raw = Inr json_str"
    and "json_loads lib json_str = Some (PDict loaded)"
    and "d = PDict (ensure_content ''improvements''
              (PList [PStr ''Quantify achievements with specific numbers'',
                      PStr ''Add more industry-specific keywords'',
                      PStr ''Include measurable results''])
           (ensure_content ''weaknesses''
              (PList [PStr ''Could benefit from more specific achievements'',
                      PStr ''Missing some key industry keywords''])
           (ensure_content ''strengths''
              (PList [PStr ''Resume shows relevant experience'',
                      PStr ''Clear professional formatting''])
           (fill_missing expected_keys loaded))))"
proof (cases "extract_json_str raw")
  case (Inl e)
  with assms show ?thesis by (simp add: analyze_try_def andthen_def)
next
  case (Inr json_str)
  show ?thesis
  proof (cases "json_loads lib json_str")
    case None
    with assms Inr show ?thesis by (simp add: analyze_try_def andthen_def)
  next
    case (Some v)
    show ?thesis
    proof (cases v)
      case (PDict loaded)
      with assms Inr Some that show ?thesis by (simp add: analyze_try_def andthen_def Let_def)
    qed (use assms Inr Some in \<open>simp_all add: analyze_try_def andthen_def\<close>)
  qed
qed

lemma analyze_try_result:
  assumes "analyze_try lib raw = Inr d"
  shows "is_dict d \<and> list_all (has_key d) expected_keys \<and> list_all (truthy_at d) content_keys"
proof -
  from assms obtain json_str loaded c1 c2 c3 where
    d: "d = PDict (ensure_content ''improvements'' c3 (ensure_content ''weaknesses'' c2
             (ensure_content ''strengths'' c1 (fill_missing expected_keys loaded))))"
    and c: "truthy c1" "truthy c2" "truthy c3"
    by (rule analyze_try_Inr) simp
  have "is_dict d" by (simp add: d is_dict_def)
  moreover have "\<forall>k \<in> set expected_keys. has_key d k"
    unfolding d by (intro ballI has_key_ensure_content has_key_fill_missing)
  moreover have "truthy_at d ''strengths''"
    unfolding d by (intro truthy_at_ensure_content truthy_at_ensured c)
  moreover have "truthy_at d ''weaknesses''"
    unfolding d by (intro truthy_at_ensure_content truthy_at_ensured c)
  moreover have "truthy_at d ''improvements''"
    unfolding d by (intro truthy_at_ensured c)
  ultimately show ?thesis by (simp add: list_all_iff content_keys_def)
qed


lemma mock_comparison_shape:
  "is_dict (mock_comparison w rn jt)"
  "list_all (has_key (mock_comparison w rn jt)) expected_keys"
  "list_all (truthy_at (mock_comparison w rn jt)) content_keys"
  "list_all (nonempty_list_at (mock_comparison w rn jt)) content_keys"
  by (simp_all add: mock_comparison_def is_dict_def has_key_def dict_get_def truthy_at_def
      nonempty_list_at_def expected_keys_def content_keys_def)

lemma analyze_try_keeps:
  assumes "analyze_try lib raw = Inr d" and "extract_json_str raw = Inr json_str"
    and "json_loads lib json_str = Some (PDict loaded)"
    and "dict_get (PDict loaded) k = Some v" and "truthy v"
  shows "dict_get d k = Some v"
proof -
  from assms(1) obtain js l c1 c2 c3 where js: "extract_json_str raw = Inr js"
    and l: "json_loads lib js = Some (PDict l)"
    and d: "d = PDict (ensure_content ''improvements'' c3 (ensure_content ''weaknesses'' c2
             (ensure_content ''strengths'' c1 (fill_missing expected_keys l))))"
    by (rule analyze_try_Inr)
  from js l assms(2,3) have "l = loaded" by simp
  with assms(4) have "dict_get (PDict (fill_missing expected_keys l)) k = Some v"
    by (simp add: dict_get_fill_missing)
  then show ?thesis unfolding d using assms(5) by (intro truthy_kept)
qed

text \<open>
  C6 (as amended). \<open>analyze_resume_vs_jd\<close> always returns a dict that contains all
  twelve expected keys, and in which \<open>strengths\<close>, \<open>weaknesses\<close> and \<open>improvements\<close> are
  true in the sense of \<open>if x\<close>, so not empty. When the mock fallback is used they are
  non-empty lists. When the LLM's output parses, a value of the parsed object that is
  true is returned as it is, whatever its type.
\<close>

theorem analyze_resume_vs_jd_shape:
  "\<exists>d. analyze_resume_vs_jd lib w resume_content jd_content resume_name jd_title = Inr d
       \<and> is_dict d
       \<and> list_all (has_key d) expected_keys
       \<and> list_all (truthy_at d) content_keys
       \<and> ((\<exists>e. analyze_try lib (call_llm w
                 (compare_prompt resume_content jd_content resume_name jd_title)) = Inl e)
            \<longrightarrow> d = mock_comparison w resume_name jd_title
                \<and> list_all (nonempty_list_at d) content_keys)
       \<and> (\<forall>json_str loaded k v.
              extract_json_str (call_llm w
                 (compare_prompt resume_content jd_content resume_name jd_title)) = Inr json_str
              \<and> json_loads lib json_str = Some (PDict loaded)
              \<and> dict_get (PDict loaded) k = Some v \<and> truthy v
            \<longrightarrow> dict_get d k = Some v)"
proof (cases "analyze_try lib (call_llm w
                 (compare_prompt resume_content jd_content resume_name jd_title))")
  case (Inl e)
  let ?d = "mock_comparison w resume_name jd_title"
  have r: "analyze_resume_vs_jd lib w resume_content jd_content resume_name jd_title = Inr ?d"
    using Inl by (simp add: analyze_resume_vs_jd_def try_except_def Let_def)
  have no: "\<And>json_str loaded. extract_json_str (call_llm w
                 (compare_prompt resume_content jd_content resume_name jd_title)) = Inr json_str
              \<Longrightarrow> json_loads lib json_str = Some (PDict loaded) \<Longrightarrow> False"
    using Inl by (simp add: analyze_try_def andthen_def Let_def)
  show ?thesis
    using r mock_comparison_shape [of w resume_name jd_title] no by blast
next
  case (Inr d)
  have r: "analyze_resume_vs_jd lib w resume_content jd_content resume_name jd_title = Inr d"
    using Inr by (simp add: analyze_resume_vs_jd_def try_except_def Let_def)
  from analyze_try_result [OF Inr] analyze_try_keeps [OF Inr] r Inr
  show ?thesis by (intro exI [of _ d]) auto
qed


lemma ex_world_reply: \<open>call_llm ex_world p = ''{"strengths": "x"}''\<close>
  by (simp add: call_llm_def ex_world_def str_defs)

lemma ex_offline_reply: "call_llm ex_offline p = []"
  by (simp add: call_llm_def ex_offline_def)

lemma ex_json_str: \<open>extract_json_str ''{"strengths": "x"}'' = Inr ''{"strengths": "x"}''\<close>
  by (simp add: extract_json_str_def str_defs Let_def)

lemma ex_no_json: "extract_json_str [] = Inl (ValueError ''No valid JSON found in response'')"
  by (simp add: extract_json_str_def str_defs Let_def)

lemma ex_loaded: \<open>json_loads ex_lib ''{"strengths": "x"}'' = Some (PDict [(PStr ''strengths'', PStr ''x'')])\<close>
  by (simp add: ex_lib_def)

lemma ex_filled: "PDict (ensure_content ''improvements''
              (PList [PStr ''Quantify achievements with specific numbers'',
                      PStr ''Add more industry-specific keywords'',
                      PStr ''Include measurable results''])
           (ensure_content ''weaknesses''
              (PList [PStr ''Could benefit from more specific achievements'',
                      PStr ''Missing some key industry keywords''])
           (ensure_content ''strengths''
              (PList [PStr ''Resume shows relevant experience'',
                      PStr ''Clear professional formatting''])
           (fill_missing expected_keys [(PStr ''strengths'', PStr ''x'')])))) = ex_comparison"
  by (simp add: expected_keys_def default_for_def ensure_content_def ex_comparison_def)

lemma ex_analyze_try: \<open>analyze_try ex_lib ''{"strengths": "x"}'' = Inr ex_comparison\<close>
  by (simp add: analyze_try_def andthen_def ex_json_str ex_loaded Let_def ex_filled)

lemma ex_analyze_try_offline: "analyze_try ex_lib [] = Inl (ValueError ''No valid JSON found in response'')"
  by (simp add: analyze_try_def andthen_def ex_no_json)

text \<open>With the LLM unreachable no JSON is found and the mock comparison comes back.\<close>

theorem analyze_resume_vs_jd_shape_witness:
  "analyze_try ex_lib (call_llm ex_offline (compare_prompt ''resume'' ''jd'' ''cv.pdf'' ''Engineer''))
     = Inl (ValueError ''No valid JSON found in response'')
   \<and> analyze_resume_vs_jd ex_lib ex_offline ''resume'' ''jd'' ''cv.pdf'' ''Engineer''
     = Inr (mock_comparison ex_offline ''cv.pdf'' ''Engineer'')
   \<and> list_all (nonempty_list_at (mock_comparison ex_offline ''cv.pdf'' ''Engineer'')) content_keys"
proof -
  have h: "analyze_try ex_lib (call_llm ex_offline (compare_prompt ''resume'' ''jd'' ''cv.pdf'' ''Engineer''))
     = Inl (ValueError ''No valid JSON found in response'')"
    by (simp only: ex_offline_reply ex_analyze_try_offline)
  from analyze_resume_vs_jd_shape [of ex_lib ex_offline "''resume''" "''jd''" "''cv.pdf''" "''Engineer''"]
  obtain d where "analyze_resume_vs_jd ex_lib ex_offline ''resume'' ''jd'' ''cv.pdf'' ''Engineer'' = Inr d"
    and "(\<exists>e. analyze_try ex_lib (call_llm ex_offline
                 (compare_prompt ''resume'' ''jd'' ''cv.pdf'' ''Engineer'')) = Inl e)
            \<longrightarrow> d = mock_comparison ex_offline ''cv.pdf'' ''Engineer''
                \<and> list_all (nonempty_list_at d) content_keys"
    by blast
  with h show ?thesis by blast
qed

text \<open>
  The claim as first stated promises non-empty lists on both paths. When the LLM
  answers \<open>{"strengths": "x"}\<close> the string is kept: \<open>strengths\<close> is not a list.
\<close>

theorem analyze_resume_vs_jd_string_counterexample:
  "analyze_resume_vs_jd ex_lib ex_world ''resume'' ''jd'' ''cv.pdf'' ''Engineer'' = Inr ex_comparison
   \<and> dict_get ex_comparison ''strengths'' = Some (PStr ''x'')
   \<and> \<not> is_list (PStr ''x'')
   \<and> \<not> nonempty_list_at ex_comparison ''strengths''"
proof -
  have "analyze_resume_vs_jd ex_lib ex_world ''resume'' ''jd'' ''cv.pdf'' ''Engineer'' = Inr ex_comparison"
    unfolding analyze_resume_vs_jd_def Let_def ex_world_reply ex_analyze_try
    by (simp add: try_except_def)
  moreover have "dict_get ex_comparison ''strengths'' = Some (PStr ''x'')"
    by (simp add: ex_comparison_def dict_get_def)
  ultimately show ?thesis by (simp add: is_list_def nonempty_list_at_def)
qed


subsection \<open>\<open>_parse_json_or_fallback\<close>\<close>















lemma find_fence_close_shape:
  "find_fence_close acc s = Some g \<Longrightarrow>
     \<exists>body rest. s = body @ CHR ''}'' # rest \<and> g = rev acc @ body @ [CHR ''}'']
        \<and> startswith (dropWhile isspace rest) ''```''"
proof (induction s arbitrary: acc)
  case Nil
  then show ?case by simp
next
  case (Cons c cs)
  show ?case
  proof (cases "c = CHR ''}'' \<and> startswith (dropWhile isspace cs) ''```''")
    case True
    with Cons.prems have "g = rev acc @ [] @ [CHR ''}'']" by auto
    with True show ?thesis by (intro exI [of _ "[]"] exI [of _ cs]) simp
  next
    case False
    with Cons.prems have "find_fence_close (c # acc) cs = Some g" by auto
    from Cons.IH [OF this] obtain body rest where
      "cs = body @ CHR ''}'' # rest" "g = rev (c # acc) @ body @ [CHR ''}'']"
      "startswith (dropWhile isspace rest) ''```''" by blast
    then show ?thesis by (intro exI [of _ "c # body"] exI [of _ rest]) simp
  qed
qed

lemma match_fence_at_shape:
  assumes "match_fence_at s = Some g"
  shows "\<exists>fence ws body rest.
           s = fence @ ws @ CHR ''{'' # body @ CHR ''}'' # rest
           \<and> lower fence = ''```json'' \<and> list_all isspace ws
           \<and> g = CHR ''{'' # body @ [CHR ''}'']
           \<and> startswith (dropWhile isspace rest) ''```''"
proof -
  from assms have lo: "lower (take 7 s) = ''```json''"
    by (simp add: match_fence_at_def split: if_splits)
  from assms lo obtain b where d: "dropWhile isspace (drop 7 s) = CHR ''{'' # b"
    and f: "find_fence_close [CHR ''{''] b = Some g"
    by (auto simp: match_fence_at_def split: list.splits if_splits)
  from find_fence_close_shape [OF f] obtain body rest where
    b: "b = body @ CHR ''}'' # rest" and g: "g = CHR ''{'' # body @ [CHR ''}'']"
    and r: "startswith (dropWhile isspace rest) ''```''" by auto
  let ?ws = "takeWhile isspace (drop 7 s)"
  have "s = take 7 s @ drop 7 s" by simp
  also have "drop 7 s = ?ws @ dropWhile isspace (drop 7 s)" by simp
  finally have "s = take 7 s @ ?ws @ CHR ''{'' # body @ CHR ''}'' # rest"
    using d b by simp
  moreover have "list_all isspace ?ws" by (auto simp: list_all_iff dest: set_takeWhileD)
  ultimately show ?thesis using lo g r by blast
qed

lemma search_fence_shape:
  "search_fence s = Some g \<Longrightarrow>
     \<exists>before fence ws body rest.
        s = before @ fence @ ws @ CHR ''{'' # body @ CHR ''}'' # rest
        \<and> lower fence = ''```json'' \<and> list_all isspace ws
        \<and> g = CHR ''{'' # body @ [CHR ''}'']
        \<and> startswith (dropWhile isspace rest) ''```''"
proof (induction s)
  case Nil
  then show ?case by simp
next
  case (Cons c cs)
  show ?case
  proof (cases "match_fence_at (c # cs)")
    case (Some g')
    with Cons.prems have "match_fence_at (c # cs) = Some g" by simp
    from match_fence_at_shape [OF this] show ?thesis
      by (metis append_Nil)
  next
    case None
    with Cons.prems have "search_fence cs = Some g" by simp
    from Cons.IH [OF this] obtain before fence ws body rest where
      "cs = before @ fence @ ws @ CHR ''{'' # body @ CHR ''}'' # rest"
      "lower fence = ''```json''" "list_all isspace ws" "g = CHR ''{'' # body @ [CHR ''}'']"
      "startswith (dropWhile isspace rest) ''```''" by blast
    then show ?thesis
      by (intro exI [of _ "c # before"] exI [of _ fence] exI [of _ ws] exI [of _ body]
          exI [of _ rest]) simp
  qed
qed


text \<open>
  The white space between a trailing comma and its bracket may be a no-break space or a
  next-line control; the comma goes all the same.
\<close>

lemma sub_trailing_commas_no_break_space:
  \<open>sub_trailing_commas (''{"a": 1,'' @ [CHR 0xA0, CHR 0x85, CHR ''}'']) = ''{"a": 1}''\<close>
  by (simp add: isspace_def)





end
